theory Spec2Isabelle
  imports Complex_Main
begin

section \<open>Exceptions\<close>

text \<open>
  The Python exceptions the modelled code can raise. \<open>PyException\<close> is the bare
  \<^verbatim>\<open>raise Exception\<close> of \<^verbatim>\<open>SpinSystem.energies\<close>; the others are raised by numpy
  (shape mismatches, out-of-range writes, \<^verbatim>\<open>np.linalg.eig\<close> on a non-square argument)
  or by the interpreter (a missing attribute).
\<close>

datatype error = ValueError | IndexError | LinAlgError | AttributeError | PyException

definition bindE :: "error + 'a \<Rightarrow> ('a \<Rightarrow> error + 'b) \<Rightarrow> error + 'b" where
  "bindE m f = (case m of Inl e \<Rightarrow> Inl e | Inr x \<Rightarrow> f x)"

fun mapE :: "('a \<Rightarrow> error + 'b) \<Rightarrow> 'a list \<Rightarrow> error + 'b list" where
  "mapE f [] = Inr []"
| "mapE f (x # xs) = bindE (f x) (\<lambda>y. bindE (mapE f xs) (\<lambda>ys. Inr (y # ys)))"

fun foldE :: "('a \<Rightarrow> 's \<Rightarrow> error + 's) \<Rightarrow> 'a list \<Rightarrow> 's \<Rightarrow> error + 's" where
  "foldE f [] s = Inr s"
| "foldE f (x # xs) s = bindE (f x s) (foldE f xs)"

section \<open>Dense matrices\<close>

text \<open>
  A two-dimensional array is the list of its rows (row-major, as numpy stores it).
  Floating-point numbers are modelled by exact real and complex numbers; rounding and
  the dtype of an array are not modelled.
\<close>

type_synonym cmat = "complex list list"

definition mk :: "nat \<Rightarrow> nat \<Rightarrow> (nat \<Rightarrow> nat \<Rightarrow> complex) \<Rightarrow> cmat" where
  "mk m n f = map (\<lambda>i. map (f i) [0..<n]) [0..<m]"

definition nrows :: "cmat \<Rightarrow> nat" where
  "nrows A = length A"

definition ncols :: "cmat \<Rightarrow> nat" where
  "ncols A = (case A of [] \<Rightarrow> 0 | r # _ \<Rightarrow> length r)"

definition is_mat :: "nat \<Rightarrow> nat \<Rightarrow> cmat \<Rightarrow> bool" where
  "is_mat m n A \<longleftrightarrow> length A = m \<and> (\<forall>r \<in> set A. length r = n)"

text \<open>\<^verbatim>\<open>np.identity(n)\<close> and \<^verbatim>\<open>np.zeros((m, n))\<close>.\<close>

definition identity :: "nat \<Rightarrow> cmat" where
  "identity n = mk n n (\<lambda>i j. if i = j then 1 else 0)"

definition zeros :: "nat \<Rightarrow> nat \<Rightarrow> cmat" where
  "zeros m n = mk m n (\<lambda>i j. 0)"

text \<open>\<^verbatim>\<open>np.kron\<close> on two-dimensional operands.\<close>

definition kron :: "cmat \<Rightarrow> cmat \<Rightarrow> cmat" where
  "kron A B = mk (nrows A * nrows B) (ncols A * ncols B)
     (\<lambda>i j. A ! (i div nrows B) ! (j div ncols B) * B ! (i mod nrows B) ! (j mod ncols B))"

text \<open>The matrix product behind \<^verbatim>\<open>@\<close>; the shape check is made by the caller.\<close>

definition matmul :: "cmat \<Rightarrow> cmat \<Rightarrow> cmat" where
  "matmul A B = mk (nrows A) (ncols B) (\<lambda>i j. \<Sum>k\<leftarrow>[0..<ncols A]. A ! i ! k * B ! k ! j)"

text \<open>
  Elementwise binary operations follow numpy's broadcasting rule: two axis lengths are
  compatible when they are equal or one of them is 1, and an axis of length 1 is
  stretched. Incompatible shapes raise \<open>ValueError\<close>.
\<close>

definition bc_ok :: "nat \<Rightarrow> nat \<Rightarrow> bool" where
  "bc_ok a b \<longleftrightarrow> a = b \<or> a = 1 \<or> b = 1"

definition bc_dim :: "nat \<Rightarrow> nat \<Rightarrow> nat" where
  "bc_dim a b = (if a = 1 then b else a)"

definition bc_at :: "cmat \<Rightarrow> nat \<Rightarrow> nat \<Rightarrow> complex" where
  "bc_at A i j = A ! (if nrows A = 1 then 0 else i) ! (if ncols A = 1 then 0 else j)"

definition bc_op :: "(complex \<Rightarrow> complex \<Rightarrow> complex) \<Rightarrow> cmat \<Rightarrow> cmat \<Rightarrow> error + cmat" where
  "bc_op f A B =
     (if bc_ok (nrows A) (nrows B) \<and> bc_ok (ncols A) (ncols B)
      then Inr (mk (bc_dim (nrows A) (nrows B)) (bc_dim (ncols A) (ncols B))
                  (\<lambda>i j. f (bc_at A i j) (bc_at B i j)))
      else Inl ValueError)"

text \<open>Row-major flattening and its inverse, the two halves of \<^verbatim>\<open>reshape\<close>.\<close>

definition flat :: "cmat \<Rightarrow> complex list" where
  "flat A = concat A"

definition unflat :: "nat \<Rightarrow> nat \<Rightarrow> complex list \<Rightarrow> cmat" where
  "unflat m n xs = mk m n (\<lambda>i j. xs ! (i * n + j))"


section \<open>numpy arrays of dimension 0, 1 and 2\<close>

text \<open>
  The program handles Python numbers (\<open>Scalar\<close>), one-dimensional arrays (\<open>Vec\<close>) and
  two-dimensional arrays (\<open>Mat\<close>). The distinction is kept because the spin-0 branch of
  \<^verbatim>\<open>generate_spin_matrices\<close> returns one-dimensional arrays. A stack of three arrays
  (\<^verbatim>\<open>np.array([sx, sy, sz])\<close>) is the list of its three slices.
\<close>

datatype ndarray = Scalar complex | Vec "complex list" | Mat cmat

fun ndim :: "ndarray \<Rightarrow> nat" where
  "ndim (Scalar c) = 0"
| "ndim (Vec v) = 1"
| "ndim (Mat M) = 2"

fun shape :: "ndarray \<Rightarrow> nat list" where
  "shape (Scalar c) = []"
| "shape (Vec v) = [length v]"
| "shape (Mat M) = [nrows M, ncols M]"

text \<open>
  \<open>view2\<close> is \<^verbatim>\<open>np.atleast_2d\<close>: the two-dimensional view with which \<^verbatim>\<open>np.kron\<close> and
  broadcasting treat an operand of lower dimension (axes of length 1 are prepended).
  \<open>wrap k\<close> reads a two-dimensional result back as an array of dimension \<open>k\<close>.
\<close>

fun view2 :: "ndarray \<Rightarrow> cmat" where
  "view2 (Scalar c) = [[c]]"
| "view2 (Vec v) = [v]"
| "view2 (Mat M) = M"

definition wrap :: "nat \<Rightarrow> cmat \<Rightarrow> ndarray" where
  "wrap k M = (if k = 0 then Scalar (M ! 0 ! 0) else if k = 1 then Vec (M ! 0) else Mat M)"

definition nd_map :: "(complex \<Rightarrow> complex) \<Rightarrow> ndarray \<Rightarrow> ndarray" where
  "nd_map f X = wrap (ndim X) (map (map f) (view2 X))"

text \<open>\<^verbatim>\<open>c * X\<close>, \<^verbatim>\<open>-X\<close> and \<^verbatim>\<open>X / c\<close> for a number \<open>c\<close>.\<close>

definition nd_scale :: "complex \<Rightarrow> ndarray \<Rightarrow> ndarray" where
  "nd_scale c X = nd_map (\<lambda>x. c * x) X"

definition nd_neg :: "ndarray \<Rightarrow> ndarray" where
  "nd_neg X = nd_map (\<lambda>x. - x) X"

definition nd_div :: "ndarray \<Rightarrow> complex \<Rightarrow> ndarray" where
  "nd_div X c = nd_map (\<lambda>x. x / c) X"

definition nd_kron :: "ndarray \<Rightarrow> ndarray \<Rightarrow> ndarray" where
  "nd_kron X Y = wrap (max (ndim X) (ndim Y)) (kron (view2 X) (view2 Y))"

definition nd_bc :: "(complex \<Rightarrow> complex \<Rightarrow> complex) \<Rightarrow> ndarray \<Rightarrow> ndarray \<Rightarrow> error + ndarray" where
  "nd_bc f X Y = bindE (bc_op f (view2 X) (view2 Y)) (\<lambda>M. Inr (wrap (max (ndim X) (ndim Y)) M))"

definition nd_add :: "ndarray \<Rightarrow> ndarray \<Rightarrow> error + ndarray" where
  "nd_add X Y = nd_bc (+) X Y"

definition nd_sub :: "ndarray \<Rightarrow> ndarray \<Rightarrow> error + ndarray" where
  "nd_sub X Y = nd_bc (-) X Y"

text \<open>
  \<^verbatim>\<open>X += Y\<close> on an array \<open>X\<close> writes into \<open>X\<close>: the broadcast result must have the shape
  of \<open>X\<close>. On a Python number it rebinds the name to \<open>X + Y\<close>.
\<close>

definition nd_iadd :: "ndarray \<Rightarrow> ndarray \<Rightarrow> error + ndarray" where
  "nd_iadd X Y = bindE (nd_add X Y) (\<lambda>Z. if shape Z = shape X then Inr Z else Inl ValueError)"

definition py_iadd :: "ndarray \<Rightarrow> ndarray \<Rightarrow> error + ndarray" where
  "py_iadd X Y = (case X of Scalar c \<Rightarrow> nd_add X Y | _ \<Rightarrow> nd_iadd X Y)"

text \<open>Python's \<^verbatim>\<open>sum(...)\<close>: starts from the number 0 and adds the items in order.\<close>

definition py_sum :: "ndarray list \<Rightarrow> error + ndarray" where
  "py_sum Xs = foldE (\<lambda>X acc. nd_add acc X) Xs (Scalar 0)"

text \<open>\<^verbatim>\<open>X @ Y\<close> (and \<^verbatim>\<open>X.dot(Y)\<close> on the same operand shapes).\<close>

definition dotv :: "complex list \<Rightarrow> complex list \<Rightarrow> complex" where
  "dotv u v = (\<Sum>k\<leftarrow>[0..<length u]. u ! k * v ! k)"

fun nd_matmul :: "ndarray \<Rightarrow> ndarray \<Rightarrow> error + ndarray" where
  "nd_matmul (Mat A) (Mat B) =
     (if ncols A = nrows B then Inr (Mat (matmul A B)) else Inl ValueError)"
| "nd_matmul (Vec v) (Mat B) =
     (if length v = nrows B then Inr (Vec (map (\<lambda>j. \<Sum>k\<leftarrow>[0..<length v]. v ! k * B ! k ! j) [0..<ncols B]))
      else Inl ValueError)"
| "nd_matmul (Mat A) (Vec v) =
     (if ncols A = length v then Inr (Vec (map (\<lambda>r. dotv r v) A)) else Inl ValueError)"
| "nd_matmul (Vec u) (Vec v) =
     (if length u = length v then Inr (Scalar (dotv u v)) else Inl ValueError)"
| "nd_matmul (Scalar c) Y = Inl ValueError"
| "nd_matmul X (Scalar c) = Inl ValueError"

text \<open>
  \<^verbatim>\<open>np.array([a, b, c]).reshape((3, n))\<close>: each slice is flattened into one row;
  \<^verbatim>\<open>M.reshape((3, m, m))\<close>: each of the three rows becomes an \<open>m \<times> m\<close> slice;
  \<^verbatim>\<open>X.reshape((m, n))\<close>. A total size that does not fit raises \<open>ValueError\<close>.
\<close>

definition reshape_stack :: "ndarray list \<Rightarrow> nat \<Rightarrow> error + cmat" where
  "reshape_stack Xs n =
     (if \<forall>X \<in> set Xs. length (flat (view2 X)) = n then Inr (map (\<lambda>X. flat (view2 X)) Xs)
      else Inl ValueError)"

definition reshape3 :: "ndarray \<Rightarrow> nat \<Rightarrow> error + ndarray list" where
  "reshape3 X m =
     (if length (view2 X) = 3 \<and> (\<forall>r \<in> set (view2 X). length r = m * m)
      then Inr (map (\<lambda>r. Mat (unflat m m r)) (view2 X))
      else Inl ValueError)"

definition reshape2 :: "ndarray \<Rightarrow> nat \<Rightarrow> nat \<Rightarrow> error + ndarray" where
  "reshape2 X m n =
     (if length (flat (view2 X)) = m * n then Inr (Mat (unflat m n (flat (view2 X))))
      else Inl ValueError)"


section \<open>The spin operators\<close>

text \<open>Python's \<^verbatim>\<open>int(x)\<close> on a float truncates towards zero.\<close>

definition py_int :: "real \<Rightarrow> int" where
  "py_int x = (if 0 \<le> x then \<lfloor>x\<rfloor> else \<lceil>x\<rceil>)"

text \<open>\<^verbatim>\<open>np.arange(spin, -spin-1, -1)\<close>: \<open>\<lceil>2 spin + 1\<rceil>\<close> values descending from \<open>spin\<close>.\<close>

definition arange_desc :: "real \<Rightarrow> real list" where
  "arange_desc spin = map (\<lambda>k. spin - real k) [0..<nat \<lceil>2 * spin + 1\<rceil>]"

text \<open>An indexed write \<^verbatim>\<open>M[r, c] = v\<close>; out of range it raises \<open>IndexError\<close>.\<close>

definition set2 :: "cmat \<Rightarrow> nat \<Rightarrow> nat \<Rightarrow> complex \<Rightarrow> error + cmat" where
  "set2 M r c v =
     (if r < nrows M \<and> c < ncols M then Inr (M[r := (M ! r)[c := v]]) else Inl IndexError)"

definition ladder :: "real \<Rightarrow> real list \<Rightarrow> nat \<Rightarrow> nat \<Rightarrow> real" where
  "ladder spin desc r r' = sqrt (spin * (spin + 1) - desc ! r * desc ! r')"

text \<open>
  One pass of the loop body of \<^verbatim>\<open>generate_spin_matrices\<close> for \<open>row\<close>, on the triple
  \<open>(sx, sy, sz)\<close>. The reads \<^verbatim>\<open>desc[row+1]\<close> and \<^verbatim>\<open>desc[row-1]\<close> happen only in the
  branches that the source evaluates them in, where they are in range.
\<close>

definition spin_row :: "real \<Rightarrow> nat \<Rightarrow> real list \<Rightarrow> nat \<Rightarrow> cmat \<times> cmat \<times> cmat
    \<Rightarrow> error + cmat \<times> cmat \<times> cmat" where
  "spin_row spin dm desc row = (\<lambda>(sx, sy, sz).
     bindE (set2 sz row row (complex_of_real (desc ! row))) (\<lambda>sz.
     if row = 0 then
       bindE (set2 sx row (row + 1) (1 / 2 * complex_of_real (ladder spin desc row (row + 1)))) (\<lambda>sx.
       bindE (set2 sy row (row + 1) (- (\<i> / 2) * complex_of_real (ladder spin desc row (row + 1)))) (\<lambda>sy.
       Inr (sx, sy, sz)))
     else if row = dm - 1 then
       bindE (set2 sx row (row - 1) (1 / 2 * complex_of_real (ladder spin desc row (row - 1)))) (\<lambda>sx.
       bindE (set2 sy row (row - 1) ((\<i> / 2) * complex_of_real (ladder spin desc row (row - 1)))) (\<lambda>sy.
       Inr (sx, sy, sz)))
     else
       bindE (set2 sx row (row + 1) (1 / 2 * complex_of_real (ladder spin desc row (row + 1)))) (\<lambda>sx.
       bindE (set2 sx row (row - 1) (1 / 2 * complex_of_real (ladder spin desc row (row - 1)))) (\<lambda>sx.
       bindE (set2 sy row (row + 1) (- (\<i> / 2) * complex_of_real (ladder spin desc row (row + 1)))) (\<lambda>sy.
       bindE (set2 sy row (row - 1) ((\<i> / 2) * complex_of_real (ladder spin desc row (row - 1)))) (\<lambda>sy.
       Inr (sx, sy, sz)))))))"

text \<open>
  \<^verbatim>\<open>generate_spin_matrices(spin)\<close>. Spin 0 returns three one-element one-dimensional
  arrays, \<^verbatim>\<open>np.array((0,))\<close>. Otherwise the matrices have dimension \<^verbatim>\<open>int(2*spin+1)\<close>;
  \<^verbatim>\<open>np.zeros\<close> raises \<open>ValueError\<close> on a negative dimension.
\<close>

definition generate_spin_matrices :: "real \<Rightarrow> error + ndarray \<times> ndarray \<times> ndarray" where
  "generate_spin_matrices spin =
     (if spin = 0 then Inr (Vec [0], Vec [0], Vec [0])
      else if py_int (2 * spin + 1) < 0 then Inl ValueError
      else
        let dm = nat (py_int (2 * spin + 1));
            desc = arange_desc spin
        in bindE (foldE (spin_row spin dm desc) [0..<dm] (zeros dm dm, zeros dm dm, zeros dm dm))
             (\<lambda>(sx, sy, sz). Inr (Mat sx, Mat sy, Mat sz)))"

section \<open>Neighbour sites\<close>

text \<open>The class \<^verbatim>\<open>Neighbour\<close>: one host nucleus, with its operators.\<close>

record Neighbour =
  disp_vector :: "real list"
  R :: real
  spinH :: real
  multH :: nat
  g_n_host :: real
  element :: string
  Hx :: ndarray
  Hy :: ndarray
  Hz :: ndarray
  H3 :: "ndarray list"
  Hv3 :: cmat

text \<open>
  \<^verbatim>\<open>Neighbour.__init__\<close>. The displacement is converted to metres
  (\<^verbatim>\<open>10**-10 * np.array(disp_vector)\<close>) and \<open>R\<close> is its Euclidean norm. The field
  \<open>H3\<close> is the attribute \<^verbatim>\<open>H\<close>, the stack of the three operators.
\<close>

definition Neighbour_init :: "real list \<Rightarrow> real \<Rightarrow> real \<Rightarrow> string \<Rightarrow> error + Neighbour" where
  "Neighbour_init dv spin g el =
     (let d = map (\<lambda>x. 1 / 10 ^ 10 * x) dv;
          m = nat (py_int (2 * spin + 1))
      in bindE (generate_spin_matrices spin) (\<lambda>(hx, hy, hz).
         bindE (reshape_stack [hx, hy, hz] (m ^ 2)) (\<lambda>hv3.
         Inr \<lparr> disp_vector = d, R = sqrt (\<Sum>x\<leftarrow>d. x ^ 2), spinH = spin, multH = m,
               g_n_host = g, element = el, Hx = hx, Hy = hy, Hz = hz,
               H3 = [hx, hy, hz], Hv3 = hv3 \<rparr>)))"

section \<open>The spin system\<close>

text \<open>The class constants of \<^verbatim>\<open>SpinSystem\<close> (\<open>h_planck\<close> is the attribute \<^verbatim>\<open>h\<close>).\<close>

definition mu_b :: real where
  "mu_b = 9.2740100 / 10 ^ 24"

definition h_planck :: real where
  "h_planck = 6.62607004 / 10 ^ 34"

definition beta_el :: real where
  "beta_el = mu_b / (h_planck * 10 ^ 9)"

definition mu_n :: real where
  "mu_n = 5.0507837 / 10 ^ 27"

definition beta_n :: real where
  "beta_n = mu_n / (h_planck * 10 ^ 9)"

text \<open>
  The attributes of a \<^verbatim>\<open>SpinSystem\<close> object. \<open>S3\<close>, \<open>I3\<close> are the attributes \<^verbatim>\<open>S\<close>, \<^verbatim>\<open>I\<close>
  (the stacks of three operators). There is no attribute \<^verbatim>\<open>multH\<close>, \<^verbatim>\<open>spinH\<close> or
  \<^verbatim>\<open>g_n_host\<close>: the constructor never assigns one.
\<close>

record SpinSystem =
  spinS :: real
  spinI :: real
  g_gs :: "real list list"
  g_es :: "real list list"
  g_n_rei :: real
  A_gs :: "real list list"
  A_es :: "real list list"
  multS :: nat
  multI :: nat
  sx :: ndarray
  sy :: ndarray
  sz :: ndarray
  S3 :: "ndarray list"
  Sv3 :: cmat
  Ix :: ndarray
  Iy :: ndarray
  Iz :: ndarray
  I3 :: "ndarray list"
  Iv3 :: cmat
  neighbours_input :: "(real list \<times> real \<times> real \<times> string) list"
  neighbours :: "Neighbour list"
  neighbours_string :: string
  HHF_gs :: ndarray
  HHF_es :: ndarray
  H_SHF_gs :: ndarray
  H_SHF_es :: ndarray
  H_gs :: ndarray
  H_es :: ndarray
  E_gs :: "complex list"
  eigvec_gs :: cmat
  E_es :: "complex list"
  eigvec_es :: cmat

definition cmat_of :: "real list list \<Rightarrow> cmat" where
  "cmat_of A = map (map complex_of_real) A"

text \<open>
  The loop \<^verbatim>\<open>for neigh in self.neighbours: X = np.kron(X, np.identity(neigh.multH))\<close>.
\<close>

definition expand_all :: "Neighbour list \<Rightarrow> ndarray \<Rightarrow> ndarray" where
  "expand_all ns X = fold (\<lambda>neigh acc. nd_kron acc (Mat (identity (multH neigh)))) ns X"

text \<open>
  The loop over \<^verbatim>\<open>enumerate(self.neighbours)\<close> that multiplies \<open>Y\<close> in at position
  \<open>idx\<close> and an identity at every other position.
\<close>

definition expand_at :: "Neighbour list \<Rightarrow> nat \<Rightarrow> ndarray \<Rightarrow> ndarray \<Rightarrow> ndarray" where
  "expand_at ns idx Y X =
     fold (\<lambda>(inner_idx, inner) acc.
             if inner_idx = idx then nd_kron acc Y
             else nd_kron acc (Mat (identity (multH inner))))
          (enumerate 0 ns) X"

text \<open>
  \<^verbatim>\<open>(A @ self.Sv3).reshape((3, self.multS, self.multS))\<close> for a \<open>3 \<times> 3\<close> array \<open>A\<close>.
\<close>

definition contract :: "ndarray \<Rightarrow> cmat \<Rightarrow> nat \<Rightarrow> error + ndarray list" where
  "contract A sv3 m = bindE (nd_matmul A (Mat sv3)) (\<lambda>X. reshape3 X m)"

text \<open>
  \<^verbatim>\<open>initialize_HHF\<close>. The ground-state term is \<^verbatim>\<open>sum(S[i] @ (A_gs S)[i])\<close>, a
  product inside the electron space; the excited-state term is
  \<^verbatim>\<open>sum(np.kron(I[i], (A_es S)[i]))\<close>, with the ion-nucleus operator as the left factor.
\<close>

definition initialize_HHF :: "SpinSystem \<Rightarrow> error + SpinSystem" where
  "initialize_HHF self =
     bindE (contract (Mat (cmat_of (A_gs self))) (Sv3 self) (multS self)) (\<lambda>hhf_gs.
     bindE (mapE (\<lambda>i. nd_matmul (S3 self ! i) (hhf_gs ! i)) [0..<3]) (\<lambda>terms_gs.
     bindE (py_sum terms_gs) (\<lambda>sum_gs.
     bindE (contract (Mat (cmat_of (A_es self))) (Sv3 self) (multS self)) (\<lambda>hhf_es.
     bindE (py_sum (map (\<lambda>i. nd_kron (I3 self ! i) (hhf_es ! i)) [0..<3])) (\<lambda>sum_es.
     Inr (self\<lparr> HHF_gs := expand_all (neighbours self) sum_gs,
                HHF_es := expand_all (neighbours self) sum_es \<rparr>))))))"

text \<open>
  \<^verbatim>\<open>initialize_SHF\<close>. \<open>mu_REI\<close> is \<^verbatim>\<open>-(mu_b * g @ Sv3).reshape((3, multS, multS))\<close>.
  \<open>shf_first\<close> is the body of the loop over \<open>i\<close> that accumulates the first term for
  one neighbour, \<open>shf_neighbour\<close> the body of the loop over the neighbours; its state is
  (\<open>first_term_gs\<close>, \<open>first_term_es\<close>, \<open>second_term_gs\<close>, \<open>second_term_es\<close>).
\<close>

definition mu_REI :: "real list list \<Rightarrow> cmat \<Rightarrow> nat \<Rightarrow> error + ndarray list" where
  "mu_REI g sv3 m =
     bindE (contract (nd_scale (complex_of_real mu_b) (Mat (cmat_of g))) sv3 m)
       (\<lambda>Xs. Inr (map nd_neg Xs))"

definition shf_first :: "SpinSystem \<Rightarrow> ndarray list \<Rightarrow> ndarray list \<Rightarrow> nat \<Rightarrow> Neighbour
     \<Rightarrow> ndarray list \<Rightarrow> nat \<Rightarrow> ndarray \<times> ndarray \<Rightarrow> error + ndarray \<times> ndarray" where
  "shf_first self mu_gs mu_es neigh_idx neigh mu_host i = (\<lambda>(first_gs, first_es).
     let gs_term = expand_at (neighbours self) neigh_idx (mu_host ! i)
                     (nd_kron (mu_gs ! i) (Mat (identity (multI self))));
         es_term = expand_at (neighbours self) neigh_idx (mu_host ! i)
                     (nd_kron (mu_es ! i) (Mat (identity (multI self))))
     in bindE (py_iadd first_gs (nd_div gs_term (complex_of_real (R neigh ^ 3)))) (\<lambda>first_gs.
        bindE (py_iadd first_es (nd_div es_term (complex_of_real (R neigh ^ 3)))) (\<lambda>first_es.
        Inr (first_gs, first_es))))"

definition dot_reshape :: "real list \<Rightarrow> cmat \<Rightarrow> nat \<Rightarrow> error + ndarray" where
  "dot_reshape v M m =
     bindE (nd_matmul (Vec (map complex_of_real v)) (Mat M)) (\<lambda>X. reshape2 X m m)"

definition shf_neighbour :: "SpinSystem \<Rightarrow> ndarray list \<Rightarrow> ndarray list \<Rightarrow> cmat \<Rightarrow> cmat
     \<Rightarrow> nat \<times> Neighbour \<Rightarrow> ndarray \<times> ndarray \<times> ndarray \<times> ndarray
     \<Rightarrow> error + ndarray \<times> ndarray \<times> ndarray \<times> ndarray" where
  "shf_neighbour self mu_gs mu_es mu_gs_v3 mu_es_v3 =
     (\<lambda>(neigh_idx, neigh) (first_gs, first_es, second_gs, second_es).
     let mu_host = map (nd_scale (complex_of_real (mu_n * g_n_host neigh))) (H3 neigh) in
     bindE (reshape_stack mu_host (multH neigh ^ 2)) (\<lambda>mu_host_v3.
     bindE (foldE (shf_first self mu_gs mu_es neigh_idx neigh mu_host) [0..<3] (first_gs, first_es))
       (\<lambda>(first_gs, first_es).
     bindE (dot_reshape (disp_vector neigh) mu_gs_v3 (multS self)) (\<lambda>dot_gs.
     bindE (dot_reshape (disp_vector neigh) mu_es_v3 (multS self)) (\<lambda>dot_es.
     bindE (dot_reshape (disp_vector neigh) mu_host_v3 (multH neigh)) (\<lambda>dot_host.
     let dot_gs = expand_at (neighbours self) neigh_idx dot_host
                    (nd_kron dot_gs (Mat (identity (multI self))));
         dot_es = expand_at (neighbours self) neigh_idx dot_host
                    (nd_kron dot_es (Mat (identity (multI self))))
     in bindE (py_iadd second_gs (nd_scale (complex_of_real (3 / R neigh ^ 5)) dot_gs)) (\<lambda>second_gs.
        bindE (py_iadd second_es (nd_scale (complex_of_real (3 / R neigh ^ 5)) dot_es)) (\<lambda>second_es.
        Inr (first_gs, first_es, second_gs, second_es)))))))))"

definition shf_total :: "ndarray \<Rightarrow> ndarray \<Rightarrow> error + ndarray" where
  "shf_total first second =
     bindE (nd_sub first second) (\<lambda>D.
     Inr (nd_div (nd_scale (complex_of_real (1 / 10 ^ 7)) D) (complex_of_real (h_planck * 10 ^ 9))))"

definition initialize_SHF :: "SpinSystem \<Rightarrow> error + SpinSystem" where
  "initialize_SHF self =
     bindE (mu_REI (g_gs self) (Sv3 self) (multS self)) (\<lambda>mu_gs.
     bindE (mu_REI (g_es self) (Sv3 self) (multS self)) (\<lambda>mu_es.
     bindE (reshape_stack mu_gs (multS self ^ 2)) (\<lambda>mu_gs_v3.
     bindE (reshape_stack mu_es (multS self ^ 2)) (\<lambda>mu_es_v3.
     bindE (foldE (shf_neighbour self mu_gs mu_es mu_gs_v3 mu_es_v3) (enumerate 0 (neighbours self))
              (Scalar 0, Scalar 0, Scalar 0, Scalar 0))
       (\<lambda>(first_gs, first_es, second_gs, second_es).
     bindE (shf_total first_gs second_gs) (\<lambda>shf_gs.
     bindE (shf_total first_es second_es) (\<lambda>shf_es.
     Inr (self\<lparr> H_SHF_gs := shf_gs, H_SHF_es := shf_es \<rparr>))))))))"

text \<open>
  Methods that mutate the object return the outcome together with the object as it is
  when the method returns or raises.
\<close>

text \<open>\<^verbatim>\<open>reset_ham\<close>: the working Hamiltonians become the cached field-independent terms.\<close>

definition reset_ham :: "SpinSystem \<Rightarrow> (error + unit) \<times> SpinSystem" where
  "reset_ham self =
     (case nd_add (HHF_gs self) (H_SHF_gs self) of
        Inl e \<Rightarrow> (Inl e, self)
      | Inr hg \<Rightarrow>
          (case nd_add (HHF_es self) (H_SHF_es self) of
             Inl e \<Rightarrow> (Inl e, self\<lparr> H_gs := hg \<rparr>)
           | Inr he \<Rightarrow> (Inr (), self\<lparr> H_gs := hg, H_es := he \<rparr>)))"

text \<open>
  The Zeeman terms of \<^verbatim>\<open>update_zeeman_ham\<close>, in the order the source computes them:
  \<open>HZ_el_gs\<close>, \<open>HZ_el_es\<close>, \<open>HZ_n_rei\<close>, \<open>HZ_n_host\<close>.
\<close>

definition B_vec_of :: "real \<Rightarrow> real \<Rightarrow> real \<Rightarrow> ndarray" where
  "B_vec_of B B_theta B_phi =
     Vec (map (\<lambda>x. complex_of_real (B * x))
            [sin B_theta * cos B_phi, sin B_theta * sin B_phi, cos B_theta])"

definition HZ_el :: "SpinSystem \<Rightarrow> ndarray \<Rightarrow> real list list \<Rightarrow> error + ndarray" where
  "HZ_el self B_vec g =
     bindE (nd_matmul (nd_scale (complex_of_real beta_el) B_vec) (Mat (cmat_of g))) (\<lambda>X.
     bindE (nd_matmul X (Mat (Sv3 self))) (\<lambda>Y.
     bindE (reshape2 Y (multS self) (multS self)) (\<lambda>Z.
     Inr (expand_all (neighbours self) (nd_kron Z (Mat (identity (multI self))))))))"

definition HZ_n_rei_of :: "SpinSystem \<Rightarrow> ndarray \<Rightarrow> error + ndarray" where
  "HZ_n_rei_of self B_vec =
     bindE (nd_matmul (nd_scale (complex_of_real (beta_n * g_n_rei self)) B_vec) (Mat (Iv3 self))) (\<lambda>Y.
     bindE (reshape2 Y (multI self) (multI self)) (\<lambda>Z.
     Inr (expand_all (neighbours self) (nd_kron (Mat (identity (multS self))) Z))))"

definition HZ_n_host_step :: "SpinSystem \<Rightarrow> ndarray \<Rightarrow> nat \<times> Neighbour \<Rightarrow> ndarray \<Rightarrow> error + ndarray" where
  "HZ_n_host_step self B_vec = (\<lambda>(neigh_idx, neigh) HZ_n_host.
     let accum = nd_kron (Mat (identity (multS self))) (Mat (identity (multI self))) in
     bindE (nd_matmul (nd_scale (complex_of_real (beta_n * g_n_host neigh)) B_vec) (Mat (Hv3 neigh))) (\<lambda>Y.
     bindE (reshape2 Y (multH neigh) (multH neigh)) (\<lambda>HZ_n_host_term.
     py_iadd HZ_n_host (expand_at (neighbours self) neigh_idx HZ_n_host_term accum))))"

definition zeeman_terms :: "SpinSystem \<Rightarrow> real \<Rightarrow> real \<Rightarrow> real
     \<Rightarrow> error + ndarray \<times> ndarray \<times> ndarray \<times> ndarray" where
  "zeeman_terms self B B_theta B_phi =
     (let B_vec = B_vec_of B B_theta B_phi in
      bindE (HZ_el self B_vec (g_gs self)) (\<lambda>HZ_el_gs.
      bindE (HZ_el self B_vec (g_es self)) (\<lambda>HZ_el_es.
      bindE (HZ_n_rei_of self B_vec) (\<lambda>HZ_n_rei.
      bindE (foldE (HZ_n_host_step self B_vec) (enumerate 0 (neighbours self)) (Scalar 0)) (\<lambda>HZ_n_host.
      Inr (HZ_el_gs, HZ_el_es, HZ_n_rei, HZ_n_host))))))"

text \<open>\<^verbatim>\<open>H += (HZ_el - HZ_n_rei - HZ_n_host)\<close>.\<close>

definition add_zeeman :: "ndarray \<Rightarrow> ndarray \<Rightarrow> ndarray \<Rightarrow> ndarray \<Rightarrow> error + ndarray" where
  "add_zeeman Hc HZ_el_x HZ_n_rei HZ_n_host =
     bindE (nd_sub HZ_el_x HZ_n_rei) (\<lambda>X.
     bindE (nd_sub X HZ_n_host) (\<lambda>Z.
     nd_iadd Hc Z))"

text \<open>
  \<^verbatim>\<open>update_zeeman_ham\<close>: the Zeeman terms are computed, the Hamiltonians are reset to
  the cached terms, and the Zeeman terms are added in place.
\<close>

definition update_zeeman_ham :: "SpinSystem \<Rightarrow> real \<Rightarrow> real \<Rightarrow> real \<Rightarrow> (error + unit) \<times> SpinSystem" where
  "update_zeeman_ham self B B_theta B_phi =
     (case zeeman_terms self B B_theta B_phi of
        Inl e \<Rightarrow> (Inl e, self)
      | Inr (HZ_el_gs, HZ_el_es, HZ_n_rei, HZ_n_host) \<Rightarrow>
          (case reset_ham self of
             (Inl e, s1) \<Rightarrow> (Inl e, s1)
           | (Inr u, s1) \<Rightarrow>
               (case add_zeeman (H_gs s1) HZ_el_gs HZ_n_rei HZ_n_host of
                  Inl e \<Rightarrow> (Inl e, s1)
                | Inr hg \<Rightarrow>
                    (case add_zeeman (H_es s1) HZ_el_es HZ_n_rei HZ_n_host of
                       Inl e \<Rightarrow> (Inl e, s1\<lparr> H_gs := hg \<rparr>)
                     | Inr he \<Rightarrow> (Inr (), s1\<lparr> H_gs := hg, H_es := he \<rparr>)))))"

section \<open>Diagonalisation\<close>

text \<open>
  \<^verbatim>\<open>np.linalg.eig\<close> is a library routine; it is a parameter \<open>eig\<close> of the model, which
  maps a square matrix to its eigenvalues and the matrix of eigenvectors (as columns).
  On an argument that is not a two-dimensional square array numpy raises
  \<open>LinAlgError\<close>. The eigenvalues are sorted as Python's \<^verbatim>\<open>sorted\<close> does on numpy
  complex numbers (by real part, then imaginary part); the model's \<open>argsort\<close> breaks
  ties by position.
\<close>

definition linalg_eig :: "(cmat \<Rightarrow> complex list \<times> cmat) \<Rightarrow> ndarray \<Rightarrow> error + complex list \<times> cmat" where
  "linalg_eig eig X =
     (case X of
        Mat M \<Rightarrow> if is_mat (nrows M) (nrows M) M then Inr (eig M) else Inl LinAlgError
      | _ \<Rightarrow> Inl LinAlgError)"

definition c_le :: "complex \<Rightarrow> complex \<Rightarrow> bool" where
  "c_le a b \<longleftrightarrow> Re a < Re b \<or> (Re a = Re b \<and> Im a \<le> Im b)"

fun insort_by :: "('a \<Rightarrow> 'a \<Rightarrow> bool) \<Rightarrow> 'a \<Rightarrow> 'a list \<Rightarrow> 'a list" where
  "insort_by le x [] = [x]"
| "insort_by le x (y # ys) = (if le x y then x # y # ys else y # insort_by le x ys)"

definition sorted_by :: "('a \<Rightarrow> 'a \<Rightarrow> bool) \<Rightarrow> 'a list \<Rightarrow> 'a list" where
  "sorted_by le xs = foldr (insort_by le) xs []"

definition py_sorted :: "complex list \<Rightarrow> complex list" where
  "py_sorted w = sorted_by c_le w"

definition argsort :: "complex list \<Rightarrow> nat list" where
  "argsort w = sorted_by (\<lambda>i j. c_le (w ! i) (w ! j)) [0..<length w]"

definition take_cols :: "cmat \<Rightarrow> nat list \<Rightarrow> cmat" where
  "take_cols V idx = map (\<lambda>r. map (\<lambda>j. r ! j) idx) V"

text \<open>\<^verbatim>\<open>calc_energies\<close> and \<^verbatim>\<open>update_B\<close>.\<close>

definition calc_energies :: "(cmat \<Rightarrow> complex list \<times> cmat) \<Rightarrow> SpinSystem \<Rightarrow> (error + unit) \<times> SpinSystem" where
  "calc_energies eig self =
     (case linalg_eig eig (H_gs self) of
        Inl e \<Rightarrow> (Inl e, self)
      | Inr (eigval_gs, eigvecs_gs) \<Rightarrow>
          (let s1 = self\<lparr> E_gs := py_sorted eigval_gs,
                           eigvec_gs := take_cols eigvecs_gs (argsort eigval_gs) \<rparr>
           in case linalg_eig eig (H_es s1) of
                Inl e \<Rightarrow> (Inl e, s1)
              | Inr (eigval_es, eigvecs_es) \<Rightarrow>
                  (Inr (), s1\<lparr> E_es := py_sorted eigval_es,
                                eigvec_es := take_cols eigvecs_es (argsort eigval_es) \<rparr>)))"

definition update_B :: "(cmat \<Rightarrow> complex list \<times> cmat) \<Rightarrow> SpinSystem \<Rightarrow> real \<Rightarrow> real \<Rightarrow> real
     \<Rightarrow> (error + unit) \<times> SpinSystem" where
  "update_B eig self B B_theta B_phi =
     (case update_zeeman_ham self B B_theta B_phi of
        (Inl e, s1) \<Rightarrow> (Inl e, s1)
      | (Inr u, s1) \<Rightarrow> calc_energies eig s1)"

section \<open>Construction\<close>

text \<open>
  \<^verbatim>\<open>SpinSystem.__init__\<close>. An exception in the constructor leaves no object, so the
  result is the object or the error. Attributes that the constructor has not assigned
  yet hold placeholders here; no method reads one before it is assigned.
\<close>

definition SpinSystem_init :: "(cmat \<Rightarrow> complex list \<times> cmat) \<Rightarrow> real \<Rightarrow> real
     \<Rightarrow> real list list \<Rightarrow> real list list \<Rightarrow> real list list \<Rightarrow> real list list \<Rightarrow> real
     \<Rightarrow> (real list \<times> real \<times> real \<times> string) list \<Rightarrow> error + SpinSystem" where
  "SpinSystem_init eig spin_s spin_i ggs ges ags aes gnrei neighbours_list =
     (let ms = nat (py_int (2 * spin_s + 1));
          mi = nat (py_int (2 * spin_i + 1))
      in bindE (generate_spin_matrices spin_s) (\<lambda>(x, y, z).
         bindE (reshape_stack [x, y, z] (ms ^ 2)) (\<lambda>sv3.
         bindE (generate_spin_matrices spin_i) (\<lambda>(ix, iy, iz).
         bindE (reshape_stack [ix, iy, iz] (mi ^ 2)) (\<lambda>iv3.
         bindE (mapE (\<lambda>(dv, spin, g, el). Neighbour_init dv spin g el) neighbours_list) (\<lambda>ns.
         bindE (initialize_HHF
                  \<lparr> spinS = spin_s, spinI = spin_i, g_gs = ggs, g_es = ges, g_n_rei = gnrei,
                    A_gs = ags, A_es = aes, multS = ms, multI = mi,
                    sx = x, sy = y, sz = z, S3 = [x, y, z], Sv3 = sv3,
                    Ix = ix, Iy = iy, Iz = iz, I3 = [ix, iy, iz], Iv3 = iv3,
                    neighbours_input = neighbours_list, neighbours = ns,
                    neighbours_string = concat (map element ns),
                    HHF_gs = Scalar 0, HHF_es = Scalar 0, H_SHF_gs = Scalar 0,
                    H_SHF_es = Scalar 0, H_gs = Scalar 0, H_es = Scalar 0,
                    E_gs = [], eigvec_gs = [], E_es = [], eigvec_es = [] \<rparr>) (\<lambda>s1.
         bindE (initialize_SHF s1) (\<lambda>s2.
         case reset_ham s2 of
           (Inl e, s3) \<Rightarrow> Inl e
         | (Inr u, s3) \<Rightarrow>
             (case calc_energies eig s3 of
                (Inl e, s4) \<Rightarrow> Inl e
              | (Inr u, s4) \<Rightarrow> Inr s4)))))))))"

section \<open>Queries\<close>

text \<open>
  Every query starts with
  \<^verbatim>\<open>if B is not None and B_theta is not None and B_phi is not None: self.update_B(...)\<close>.
  An optional argument is an \<open>option\<close>, with \<open>None\<close> for Python's \<^verbatim>\<open>None\<close>.
\<close>

definition field_update :: "(cmat \<Rightarrow> complex list \<times> cmat) \<Rightarrow> SpinSystem
     \<Rightarrow> real option \<Rightarrow> real option \<Rightarrow> real option \<Rightarrow> (error + unit) \<times> SpinSystem" where
  "field_update eig self B B_theta B_phi =
     (case B of
        None \<Rightarrow> (Inr (), self)
      | Some b \<Rightarrow>
          (case B_theta of
             None \<Rightarrow> (Inr (), self)
           | Some t \<Rightarrow>
               (case B_phi of
                  None \<Rightarrow> (Inr (), self)
                | Some p \<Rightarrow> update_B eig self b t p)))"

text \<open>\<^verbatim>\<open>energies\<close>: the selector is compared with \<^verbatim>\<open>'gs'\<close> and \<^verbatim>\<open>'es'\<close>.\<close>

definition energies :: "(cmat \<Rightarrow> complex list \<times> cmat) \<Rightarrow> SpinSystem \<Rightarrow> string
     \<Rightarrow> real option \<Rightarrow> real option \<Rightarrow> real option \<Rightarrow> (error + complex list) \<times> SpinSystem" where
  "energies eig self state B B_theta B_phi =
     (case field_update eig self B B_theta B_phi of
        (Inl e, s1) \<Rightarrow> (Inl e, s1)
      | (Inr u, s1) \<Rightarrow>
          if state = ''gs'' then (Inr (E_gs s1), s1)
          else if state = ''es'' then (Inr (E_es s1), s1)
          else (Inl PyException, s1))"

text \<open>
  \<^verbatim>\<open>spin_transitions\<close>. Both outer loops run over \<^verbatim>\<open>range(len(self.E_es))\<close>; the inner
  loop of the ground-state list runs to \<^verbatim>\<open>len(self.E_gs)\<close>.
\<close>

type_synonym transition = "complex \<times> (nat \<times> nat \<times> nat)"

definition pairs_from :: "complex list \<Rightarrow> nat \<Rightarrow> transition list" where
  "pairs_from E n_outer =
     concat (map (\<lambda>i. map (\<lambda>j. (E ! j - E ! i, (1, 1, 1))) [i + 1..<length E]) [0..<n_outer])"

definition spin_transitions :: "(cmat \<Rightarrow> complex list \<times> cmat) \<Rightarrow> SpinSystem
     \<Rightarrow> real option \<Rightarrow> real option \<Rightarrow> real option
     \<Rightarrow> (error + transition list list) \<times> SpinSystem" where
  "spin_transitions eig self B B_theta B_phi =
     (case field_update eig self B B_theta B_phi of
        (Inl e, s1) \<Rightarrow> (Inl e, s1)
      | (Inr u, s1) \<Rightarrow>
          (Inr [pairs_from (E_gs s1) (length (E_es s1)),
                pairs_from (E_es s1) (length (E_es s1))], s1))"

text \<open>
  \<^verbatim>\<open>transition_strength\<close>: the electron operators doubled, expanded by the ion-nucleus
  identity and by every neighbour; \<open>bracket u M v\<close> is \<^verbatim>\<open>abs(u.conjugate() @ M @ v)**2\<close>
  for one-dimensional \<open>u\<close>, \<open>v\<close>.
\<close>

definition bracket :: "complex list \<Rightarrow> ndarray \<Rightarrow> complex list \<Rightarrow> error + real" where
  "bracket u M v =
     bindE (nd_matmul (Vec (map cnj u)) M) (\<lambda>X.
     bindE (nd_matmul X (Vec v)) (\<lambda>Y.
     case Y of Scalar c \<Rightarrow> Inr ((cmod c) ^ 2) | _ \<Rightarrow> Inl ValueError))"

definition transition_strength :: "SpinSystem \<Rightarrow> complex list \<Rightarrow> complex list
     \<Rightarrow> error + real \<times> real \<times> real" where
  "transition_strength self initial final =
     (let bigSx = expand_all (neighbours self) (nd_scale 2 (nd_kron (sx self) (Mat (identity (multI self)))));
          bigSy = expand_all (neighbours self) (nd_scale 2 (nd_kron (sy self) (Mat (identity (multI self)))));
          bigSz = expand_all (neighbours self) (nd_scale 2 (nd_kron (sz self) (Mat (identity (multI self)))))
      in bindE (bracket final bigSx initial) (\<lambda>fx.
         bindE (bracket final bigSy initial) (\<lambda>fy.
         bindE (bracket final bigSz initial) (\<lambda>fz.
         Inr (fx, fy, fz)))))"

text \<open>A column \<^verbatim>\<open>V[:, j]\<close> of a two-dimensional array; Python accepts \<open>-n \<le> j < n\<close>.\<close>

definition py_index :: "nat \<Rightarrow> int \<Rightarrow> error + nat" where
  "py_index n j =
     (if 0 \<le> j \<and> j < int n then Inr (nat j)
      else if - int n \<le> j \<and> j < 0 then Inr (nat (int n + j))
      else Inl IndexError)"

definition column :: "cmat \<Rightarrow> int \<Rightarrow> error + complex list" where
  "column V j = bindE (py_index (ncols V) j) (\<lambda>k. Inr (map (\<lambda>r. r ! k) V))"

text \<open>\<^verbatim>\<open>optical_transitions\<close>: every pair of a ground and an excited level.\<close>

type_synonym optical = "complex \<times> (real \<times> real \<times> real) option \<times> (nat \<times> nat)"

definition optical_entry :: "SpinSystem \<Rightarrow> bool \<Rightarrow> nat \<Rightarrow> nat \<Rightarrow> error + optical" where
  "optical_entry self compute_strengths idx_g idx_e =
     (if compute_strengths then
        bindE (column (eigvec_gs self) (int idx_g)) (\<lambda>vg.
        bindE (column (eigvec_es self) (int idx_e)) (\<lambda>ve.
        bindE (transition_strength self vg ve) (\<lambda>f.
        Inr (E_es self ! idx_e - E_gs self ! idx_g, Some f, (idx_g, idx_e)))))
      else Inr (E_es self ! idx_e - E_gs self ! idx_g, None, (idx_g, idx_e)))"

definition optical_transitions :: "(cmat \<Rightarrow> complex list \<times> cmat) \<Rightarrow> SpinSystem
     \<Rightarrow> real option \<Rightarrow> real option \<Rightarrow> real option \<Rightarrow> bool
     \<Rightarrow> (error + optical list) \<times> SpinSystem" where
  "optical_transitions eig self B B_theta B_phi compute_strengths =
     (case field_update eig self B B_theta B_phi of
        (Inl e, s1) \<Rightarrow> (Inl e, s1)
      | (Inr u, s1) \<Rightarrow>
          (mapE (\<lambda>(idx_g, idx_e). optical_entry s1 compute_strengths idx_g idx_e)
             (concat (map (\<lambda>idx_g. map (\<lambda>idx_e. (idx_g, idx_e)) [0..<length (E_es s1)])
                        [0..<length (E_gs s1)])), s1))"

text \<open>
  \<^verbatim>\<open>superhyperfine_levels\<close>: after its own field update it calls \<^verbatim>\<open>self.energies\<close>
  four times with the same arguments and indexes the result with 0, 1, -2 and -1.
\<close>

definition item :: "complex list \<Rightarrow> int \<Rightarrow> error + complex" where
  "item xs j = bindE (py_index (length xs) j) (\<lambda>k. Inr (xs ! k))"

definition energy_item :: "(cmat \<Rightarrow> complex list \<times> cmat) \<Rightarrow> string
     \<Rightarrow> real option \<Rightarrow> real option \<Rightarrow> real option \<Rightarrow> int \<Rightarrow> SpinSystem
     \<Rightarrow> (error + complex) \<times> SpinSystem" where
  "energy_item eig state B B_theta B_phi j self =
     (case energies eig self state B B_theta B_phi of
        (Inl e, s1) \<Rightarrow> (Inl e, s1)
      | (Inr xs, s1) \<Rightarrow> (item xs j, s1))"

definition superhyperfine_levels :: "(cmat \<Rightarrow> complex list \<times> cmat) \<Rightarrow> SpinSystem \<Rightarrow> string
     \<Rightarrow> real option \<Rightarrow> real option \<Rightarrow> real option
     \<Rightarrow> (error + complex \<times> complex \<times> complex \<times> complex \<times> complex \<times> complex) \<times> SpinSystem" where
  "superhyperfine_levels eig self state B B_theta B_phi =
     (case field_update eig self B B_theta B_phi of
        (Inl e, s1) \<Rightarrow> (Inl e, s1)
      | (Inr u, s1) \<Rightarrow>
     (case energy_item eig state B B_theta B_phi 0 s1 of
        (Inl e, s2) \<Rightarrow> (Inl e, s2)
      | (Inr low, s2) \<Rightarrow>
     (case energy_item eig state B B_theta B_phi 1 s2 of
        (Inl e, s3) \<Rightarrow> (Inl e, s3)
      | (Inr up, s3) \<Rightarrow>
     (case energy_item eig state B B_theta B_phi (- 2) s3 of
        (Inl e, s4) \<Rightarrow> (Inl e, s4)
      | (Inr low2, s4) \<Rightarrow>
     (case energy_item eig state B B_theta B_phi (- 1) s4 of
        (Inl e, s5) \<Rightarrow> (Inl e, s5)
      | (Inr up2, s5) \<Rightarrow>
          (let avg = (low + up) / 2; avg2 = (low2 + up2) / 2
           in (Inr ((low - avg) * 10 ^ 6, (up - avg) * 10 ^ 6, (up - low) * 10 ^ 6,
                    (low2 - avg2) * 10 ^ 6, (up2 - avg2) * 10 ^ 6, (up2 - low2) * 10 ^ 6),
               s5)))))))"

text \<open>
  \<^verbatim>\<open>branching_contrast\<close>. Its first statement after the field update evaluates
  \<^verbatim>\<open>np.identity(self.multH)\<close>. A \<^verbatim>\<open>SpinSystem\<close> has no attribute \<^verbatim>\<open>multH\<close> (only a
  \<^verbatim>\<open>Neighbour\<close> has one), so the attribute lookup raises \<open>AttributeError\<close>; the rest of
  the body is modelled after it as the source has it.
\<close>

definition SpinSystem_multH :: "SpinSystem \<Rightarrow> error + nat" where
  "SpinSystem_multH self = Inl AttributeError"

definition branching_values :: "SpinSystem \<Rightarrow> nat \<Rightarrow> (int \<times> int \<times> int) option
     \<Rightarrow> error + real \<times> real \<times> real \<times> real \<times> complex list \<times> complex list \<times> complex list" where
  "branching_values self mh stated_levels =
     (let bigSx = nd_scale 2 (nd_kron (nd_kron (sx self) (Mat (identity (multI self)))) (Mat (identity mh)));
          ijk = (case stated_levels of None \<Rightarrow> (0, 1, 0) | Some l \<Rightarrow> l)
      in case ijk of (i, j, k) \<Rightarrow>
         bindE (column (eigvec_gs self) i) (\<lambda>gs_lower.
         bindE (column (eigvec_gs self) j) (\<lambda>gs_upper.
         bindE (column (eigvec_es self) k) (\<lambda>es_lower.
         bindE (bracket gs_upper bigSx es_lower) (\<lambda>r_23_S_x.
         bindE (bracket gs_lower bigSx es_lower) (\<lambda>r_13_S_x.
         let RS_x = r_23_S_x / r_13_S_x;
             rho_S_x = 4 * RS_x / (1 + RS_x) ^ 2
         in Inr (r_23_S_x, r_13_S_x, RS_x, rho_S_x, gs_lower, gs_upper, es_lower)))))))"

definition branching_contrast :: "(cmat \<Rightarrow> complex list \<times> cmat) \<Rightarrow> SpinSystem
     \<Rightarrow> real option \<Rightarrow> real option \<Rightarrow> real option \<Rightarrow> (int \<times> int \<times> int) option
     \<Rightarrow> (error + real \<times> real \<times> real \<times> real \<times> complex list \<times> complex list \<times> complex list)
         \<times> SpinSystem" where
  "branching_contrast eig self B B_theta B_phi stated_levels =
     (case field_update eig self B B_theta B_phi of
        (Inl e, s1) \<Rightarrow> (Inl e, s1)
      | (Inr u, s1) \<Rightarrow>
          (bindE (SpinSystem_multH s1) (\<lambda>mh. branching_values s1 mh stated_levels), s1))"

section \<open>Examples and reference definitions\<close>

text \<open>
  A stand-in for \<^verbatim>\<open>np.linalg.eig\<close> that is right on diagonal matrices: the
  eigenvalues are the diagonal entries and the eigenvectors the unit vectors.
\<close>

definition eig_diag :: "cmat \<Rightarrow> complex list \<times> cmat" where
  "eig_diag M = (map (\<lambda>i. M ! i ! i) [0..<length M], identity (length M))"

definition zero3 :: "real list list" where
  "zero3 = [[0, 0, 0], [0, 0, 0], [0, 0, 0]]"

text \<open>
  The object that \<^verbatim>\<open>SpinSystem(1/2, 0, 0, 0, 0, 0, 0, [])\<close> constructs (all tensors zero,
  no ion nucleus, no neighbour).
\<close>

definition sys_half :: SpinSystem where
  "sys_half =
     \<lparr> spinS = 1 / 2, spinI = 0, g_gs = zero3, g_es = zero3, g_n_rei = 0,
       A_gs = zero3, A_es = zero3, multS = 2, multI = 1,
       sx = Mat [[0, 1 / 2], [1 / 2, 0]],
       sy = Mat [[0, - (\<i> / 2)], [\<i> / 2, 0]],
       sz = Mat [[1 / 2, 0], [0, - (1 / 2)]],
       S3 = [Mat [[0, 1 / 2], [1 / 2, 0]], Mat [[0, - (\<i> / 2)], [\<i> / 2, 0]],
             Mat [[1 / 2, 0], [0, - (1 / 2)]]],
       Sv3 = [[0, 1 / 2, 1 / 2, 0], [0, - (\<i> / 2), \<i> / 2, 0], [1 / 2, 0, 0, - (1 / 2)]],
       Ix = Vec [0], Iy = Vec [0], Iz = Vec [0],
       I3 = [Vec [0], Vec [0], Vec [0]], Iv3 = [[0], [0], [0]],
       neighbours_input = [], neighbours = [], neighbours_string = [],
       HHF_gs = Mat [[0, 0], [0, 0]], HHF_es = Mat [[0, 0], [0, 0]],
       H_SHF_gs = Scalar 0, H_SHF_es = Scalar 0,
       H_gs = Mat [[0, 0], [0, 0]], H_es = Mat [[0, 0], [0, 0]],
       E_gs = [0, 0], eigvec_gs = [[1, 0], [0, 1]],
       E_es = [0, 0], eigvec_es = [[1, 0], [0, 1]] \<rparr>"

text \<open>
  The index pairs \<open>(i, j)\<close> with \<open>i < j < n\<close>, in the order of two nested loops: the
  reference enumeration for the spin transitions of a manifold with \<open>n\<close> levels.
\<close>

definition index_pairs :: "nat \<Rightarrow> (nat \<times> nat) list" where
  "index_pairs n = filter (\<lambda>(i, j). i < j) (List.product [0..<n] [0..<n])"

text \<open>
  The entries of the spin matrices in closed form: \<open>lad s r c\<close> is the ladder coefficient
  between the basis states \<open>r\<close> and \<open>c\<close> (magnetic numbers \<open>s - r\<close> and \<open>s - c\<close>);
  \<open>upto_row k f\<close> is the matrix the loop has filled after \<open>k\<close> rows.
\<close>

definition lad :: "real \<Rightarrow> nat \<Rightarrow> nat \<Rightarrow> real" where
  "lad s r c = sqrt (s * (s + 1) - (s - real r) * (s - real c))"

definition sx_entry :: "real \<Rightarrow> nat \<Rightarrow> nat \<Rightarrow> complex" where
  "sx_entry s r c = (if c = r + 1 \<or> r = c + 1 then 1 / 2 * complex_of_real (lad s r c) else 0)"

definition sy_entry :: "real \<Rightarrow> nat \<Rightarrow> nat \<Rightarrow> complex" where
  "sy_entry s r c =
     (if c = r + 1 then - (\<i> / 2) * complex_of_real (lad s r c)
      else if r = c + 1 then (\<i> / 2) * complex_of_real (lad s r c) else 0)"

definition sz_entry :: "real \<Rightarrow> nat \<Rightarrow> nat \<Rightarrow> complex" where
  "sz_entry s r c = (if r = c then complex_of_real (s - real r) else 0)"

definition upto_row :: "nat \<Rightarrow> (nat \<Rightarrow> nat \<Rightarrow> complex) \<Rightarrow> nat \<Rightarrow> nat \<Rightarrow> complex" where
  "upto_row k f r c = (if r < k then f r c else 0)"

text \<open>
  The commutator \<^verbatim>\<open>X @ Y - Y @ X\<close>, and the check that \<^verbatim>\<open>X @ Y - Y @ X - 1j * Z\<close>
  evaluates, without an exception, to an array of zeros.
\<close>

definition commutator :: "ndarray \<Rightarrow> ndarray \<Rightarrow> error + ndarray" where
  "commutator X Y = bindE (nd_matmul X Y) (\<lambda>P. bindE (nd_matmul Y X) (\<lambda>Q. nd_sub P Q))"

definition nd_all_zero :: "ndarray \<Rightarrow> bool" where
  "nd_all_zero X = list_all (list_all (\<lambda>x. x = 0)) (view2 X)"

definition commutes_to :: "ndarray \<Rightarrow> ndarray \<Rightarrow> ndarray \<Rightarrow> bool" where
  "commutes_to X Y Z =
     (case bindE (commutator X Y) (\<lambda>C. nd_sub C (nd_scale \<i> Z)) of
        Inl e \<Rightarrow> False
      | Inr D \<Rightarrow> nd_all_zero D)"

text \<open>
  Predicates used in the proofs: \<open>zm\<close> holds of the zero matrices, \<open>nzm\<close> of the arrays
  whose two-dimensional view is a zero matrix, \<open>wf_nd\<close> of the arrays whose rows all have
  the same length.
\<close>

definition zm :: "cmat \<Rightarrow> bool" where
  "zm M \<longleftrightarrow> (\<exists>m n. M = zeros m n)"

definition nzm :: "ndarray \<Rightarrow> bool" where
  "nzm X \<longleftrightarrow> zm (view2 X)"

definition wf_nd :: "ndarray \<Rightarrow> bool" where
  "wf_nd X \<longleftrightarrow> is_mat (nrows (view2 X)) (ncols (view2 X)) (view2 X)"

text \<open>
  A second example: spin 1/2, no ion nucleus, no neighbour, isotropic \<open>g = 2\<close> in both
  manifolds and no hyperfine coupling.
\<close>

definition diag2 :: "real list list" where
  "diag2 = [[2, 0, 0], [0, 2, 0], [0, 0, 2]]"

definition sys_g :: SpinSystem where
  "sys_g = sys_half\<lparr>g_gs := diag2, g_es := diag2\<rparr>"

text \<open>
  The object built by \<^verbatim>\<open>SpinSystem(0.5, 0.5, zeros, zeros, zeros, zeros, 0, [])\<close>: electron spin 1/2
  and ion-nucleus spin 1/2, no neighbours.
\<close>

definition sys_nuc :: SpinSystem where
  "sys_nuc = sys_half
     \<lparr> spinI := 1 / 2, multI := 2,
       Ix := Mat [[0, 1 / 2], [1 / 2, 0]],
       Iy := Mat [[0, - (\<i> / 2)], [\<i> / 2, 0]],
       Iz := Mat [[1 / 2, 0], [0, - (1 / 2)]],
       I3 := [Mat [[0, 1 / 2], [1 / 2, 0]], Mat [[0, - (\<i> / 2)], [\<i> / 2, 0]],
              Mat [[1 / 2, 0], [0, - (1 / 2)]]],
       Iv3 := [[0, 1 / 2, 1 / 2, 0], [0, - (\<i> / 2), \<i> / 2, 0], [1 / 2, 0, 0, - (1 / 2)]],
       HHF_es := Mat [[0, 0, 0, 0], [0, 0, 0, 0], [0, 0, 0, 0], [0, 0, 0, 0]],
       H_es := Mat [[0, 0, 0, 0], [0, 0, 0, 0], [0, 0, 0, 0], [0, 0, 0, 0]],
       E_es := [0, 0, 0, 0],
       eigvec_es := [[1, 0, 0, 0], [0, 1, 0, 0], [0, 0, 1, 0], [0, 0, 0, 1]] \<rparr>"

text \<open>
  An excited-state hyperfine tensor with the single entry \<open>A\<^sub>z\<^sub>z = 1\<close>, and the object built by
  \<^verbatim>\<open>SpinSystem(0.5, 1, zeros, zeros, zeros, Az, 0, [])\<close>: electron spin 1/2, ion-nucleus spin 1.
\<close>

definition Az :: "real list list" where
  "Az = [[0, 0, 0], [0, 0, 0], [0, 0, 1]]"

definition r2 :: complex where
  "r2 = complex_of_real (sqrt 2) / 2"

definition sys_one :: SpinSystem where
  "sys_one = sys_half
     \<lparr> spinI := 1, A_es := Az, multI := 3,
       Ix := Mat [[0, r2, 0], [r2, 0, r2], [0, r2, 0]],
       Iy := Mat [[0, - (\<i> * r2), 0], [\<i> * r2, 0, - (\<i> * r2)], [0, \<i> * r2, 0]],
       Iz := Mat [[1, 0, 0], [0, 0, 0], [0, 0, - 1]],
       I3 := [Mat [[0, r2, 0], [r2, 0, r2], [0, r2, 0]],
              Mat [[0, - (\<i> * r2), 0], [\<i> * r2, 0, - (\<i> * r2)], [0, \<i> * r2, 0]],
              Mat [[1, 0, 0], [0, 0, 0], [0, 0, - 1]]],
       Iv3 := [[0, r2, 0, r2, 0, r2, 0, r2, 0],
               [0, - (\<i> * r2), 0, \<i> * r2, 0, - (\<i> * r2), 0, \<i> * r2, 0],
               [1, 0, 0, 0, 0, 0, 0, 0, - 1]],
       HHF_es := Mat [[1 / 2, 0, 0, 0, 0, 0], [0, - (1 / 2), 0, 0, 0, 0], [0, 0, 0, 0, 0, 0],
                      [0, 0, 0, 0, 0, 0], [0, 0, 0, 0, - (1 / 2), 0], [0, 0, 0, 0, 0, 1 / 2]],
       H_es := Mat [[1 / 2, 0, 0, 0, 0, 0], [0, - (1 / 2), 0, 0, 0, 0], [0, 0, 0, 0, 0, 0],
                    [0, 0, 0, 0, 0, 0], [0, 0, 0, 0, - (1 / 2), 0], [0, 0, 0, 0, 0, 1 / 2]],
       E_es := [- (1 / 2), - (1 / 2), 0, 0, 1 / 2, 1 / 2],
       eigvec_es := [[0, 0, 0, 0, 1, 0], [1, 0, 0, 0, 0, 0], [0, 0, 1, 0, 0, 0],
                     [0, 0, 0, 1, 0, 0], [0, 1, 0, 0, 0, 0], [0, 0, 0, 0, 0, 1]] \<rparr>"

text \<open>
  The excited-state hyperfine term as the specification words it: the electron factor
  \<open>(A\<^sub>e\<^sub>s S)\<^sub>i\<close> in the first slot, the ion-nucleus operator \<open>I\<^sub>i\<close> in the second, identities on
  every neighbour. It differs from the excited-state half of \<^verbatim>\<open>initialize_HHF\<close> only in the
  order of the two Kronecker factors.
\<close>

definition HHF_es_global_order :: "SpinSystem \<Rightarrow> error + ndarray" where
  "HHF_es_global_order self =
     bindE (contract (Mat (cmat_of (A_es self))) (Sv3 self) (multS self)) (\<lambda>hhf_es.
     bindE (py_sum (map (\<lambda>i. nd_kron (hhf_es ! i) (I3 self ! i)) [0..<3])) (\<lambda>sum_es.
     Inr (expand_all (neighbours self) sum_es)))"

text \<open>
  Hermitian arrays. \<open>herm M\<close>: \<open>M\<close> is square and equals its conjugate transpose entry by
  entry; \<open>vherm X\<close>: the same of the two-dimensional view of an array; \<open>hrow m r\<close>: the row
  \<open>r\<close> is the row-major flattening of a Hermitian \<open>m \<times> m\<close> matrix.
\<close>

definition herm :: "cmat \<Rightarrow> bool" where
  "herm M \<longleftrightarrow> is_mat (length M) (length M) M
     \<and> (\<forall>i<length M. \<forall>j<length M. M ! i ! j = cnj (M ! j ! i))"

definition vherm :: "ndarray \<Rightarrow> bool" where
  "vherm X \<longleftrightarrow> herm (view2 X)"




text \<open>
  The object of \<^verbatim>\<open>SpinSystem(0.5, 0, zeros, zeros, zeros, zeros, 0, [])\<close> after the
  assignments \<^verbatim>\<open>s.E_gs = [1, 2, 4, 8]\<close> and \<^verbatim>\<open>s.E_es = [0, 5]\<close>: a ground spectrum with more
  entries than the excited spectrum.
\<close>

definition sys_lev :: SpinSystem where
  "sys_lev = sys_half\<lparr>E_gs := [1, 2, 4, 8], E_es := [0, 5]\<rparr>"

text \<open>
  The object built by \<^verbatim>\<open>SpinSystem(0.5, 0.5, 2*identity(3), 2*identity(3), zeros, zeros, 0, [])\<close>:
  electron spin 1/2 with isotropic \<open>g = 2\<close>, ion-nucleus spin 1/2, no neighbours.
\<close>

definition sys_nuc_g :: SpinSystem where
  "sys_nuc_g = sys_nuc\<lparr>g_gs := diag2, g_es := diag2\<rparr>"

text \<open>
  \<open>ops_ok m Xs v3\<close>: \<open>Xs\<close> is a stack of three Hermitian operators of dimension \<open>m\<close> and
  \<open>v3\<close> is its reshaping to three rows, as the constructors build \<^verbatim>\<open>S\<close> and \<^verbatim>\<open>Sv3\<close>,
  \<^verbatim>\<open>I\<close> and \<^verbatim>\<open>Iv3\<close>, \<^verbatim>\<open>H\<close> and \<^verbatim>\<open>Hv3\<close>.
\<close>

definition ops_ok :: "nat \<Rightarrow> ndarray list \<Rightarrow> cmat \<Rightarrow> bool" where
  "ops_ok m Xs v3 \<longleftrightarrow> length Xs = 3 \<and> (\<forall>X \<in> set Xs. vherm X \<and> length (view2 X) = m)
     \<and> v3 = map (\<lambda>X. flat (view2 X)) Xs"

text \<open>
  The facts about an object that the Hermiticity of its Hamiltonians rests on: the three
  operator stacks are Hermitian and reshaped as the constructors do it, the \<open>g\<close> matrices are
  \<open>3 \<times> 3\<close>, and the cached excited-state terms and the excited-state Hamiltonian are
  Hermitian (\<open>sys_ok\<close>); the cached ground-state hyperfine term and the ground-state
  Hamiltonian are Hermitian (\<open>gs_ok\<close>).
\<close>

definition sys_ok :: "SpinSystem \<Rightarrow> bool" where
  "sys_ok self \<longleftrightarrow> ops_ok (multS self) (S3 self) (Sv3 self)
     \<and> ops_ok (multI self) (I3 self) (Iv3 self)
     \<and> (\<forall>n \<in> set (neighbours self). ops_ok (multH n) (H3 n) (Hv3 n))
     \<and> is_mat 3 3 (cmat_of (g_gs self)) \<and> is_mat 3 3 (cmat_of (g_es self))
     \<and> vherm (HHF_es self) \<and> vherm (H_SHF_gs self) \<and> vherm (H_SHF_es self)
     \<and> vherm (H_es self)"

definition gs_ok :: "SpinSystem \<Rightarrow> bool" where
  "gs_ok self \<longleftrightarrow> vherm (HHF_gs self) \<and> vherm (H_gs self)"







section \<open>Basic facts about matrices\<close>

lemma length_mk [simp]: "length (mk m n f) = m"
  by (simp add: mk_def)

lemma nth_mk [simp]: "i < m \<Longrightarrow> mk m n f ! i = map (f i) [0..<n]"
  by (simp add: mk_def)

lemma nth_nth_mk: "i < m \<Longrightarrow> j < n \<Longrightarrow> mk m n f ! i ! j = f i j"
  by simp

lemma nrows_mk [simp]: "nrows (mk m n f) = m"
  by (simp add: nrows_def)

lemma ncols_mk [simp]: "0 < m \<Longrightarrow> ncols (mk m n f) = n"
  by (cases m) (simp_all add: ncols_def mk_def upt_conv_Cons del: upt_Suc)

lemma is_mat_mk [simp]: "is_mat m n (mk m n f)"
  by (auto simp: is_mat_def mk_def)

lemma mk_cong: "(\<And>i j. i < m \<Longrightarrow> j < n \<Longrightarrow> f i j = g i j) \<Longrightarrow> mk m n f = mk m n g"
  by (simp add: mk_def)



lemma is_mat_row: "is_mat m n A \<Longrightarrow> i < m \<Longrightarrow> length (A ! i) = n"
  by (simp add: is_mat_def)

lemma mk_nth: "is_mat m n A \<Longrightarrow> mk m n (\<lambda>i j. A ! i ! j) = A"
  by (auto simp: is_mat_def mk_def list_eq_iff_nth_eq)

lemma mat_eqI:
  assumes "is_mat m n A" "is_mat m n B" "\<And>i j. i < m \<Longrightarrow> j < n \<Longrightarrow> A ! i ! j = B ! i ! j"
  shows "A = B"
proof -
  have "mk m n (\<lambda>i j. A ! i ! j) = mk m n (\<lambda>i j. B ! i ! j)"
    using assms(3) by (rule mk_cong)
  then show ?thesis using assms(1,2) by (simp add: mk_nth)
qed

text \<open>Rules that evaluate the model on literal arrays.\<close>

lemma upt_ev: "[i..<numeral n] = (if i < numeral n then i # [i + 1..<numeral n] else [])"
  by (simp add: upt_rec)

lemma upt_ev1: "[i..<1] = (if i < 1 then [i] else [])"
  by (simp add: upt_rec)

lemma len_ev: "length (x # xs) = length xs + 1"
  by simp

lemmas ev_spin = generate_spin_matrices_def py_int_def arange_desc_def spin_row_def set2_def
  zeros_def mk_def nrows_def ncols_def ladder_def bindE_def upt_ev

lemmas ev_np = mk_def nrows_def ncols_def bindE_def upt_ev upt_ev1 len_ev
  reshape_stack_def flat_def contract_def cmat_of_def matmul_def reshape3_def reshape2_def
  unflat_def py_sum_def nd_add_def nd_bc_def bc_op_def bc_ok_def bc_dim_def bc_at_def wrap_def
  nd_kron_def kron_def expand_all_def nd_scale_def nd_map_def nd_neg_def nd_sub_def nd_div_def
  identity_def

lemma spin_half_matrices:
  "generate_spin_matrices (1 / 2) =
     Inr (Mat [[0, 1 / 2], [1 / 2, 0]], Mat [[0, - (\<i> / 2)], [\<i> / 2, 0]],
          Mat [[1 / 2, 0], [0, - (1 / 2)]])"
  by (simp add: ev_spin)

lemma sys_half_init:
  "SpinSystem_init eig_diag (1 / 2) 0 zero3 zero3 zero3 zero3 0 [] = Inr sys_half"
  apply (simp add: SpinSystem_init_def spin_half_matrices generate_spin_matrices_def[of 0]
      py_int_def del: list.size(4) One_nat_def)
  apply (simp add: reshape_stack_def flat_def del: list.size(4) One_nat_def)
  apply (simp add: initialize_HHF_def)
  apply (simp add: ev_np zero3_def del: list.size(4) One_nat_def)
  apply (simp add: initialize_SHF_def mu_REI_def shf_total_def)
  apply (simp add: ev_np del: list.size(4) One_nat_def)
  apply (simp add: reset_ham_def ev_np del: list.size(4) One_nat_def)
  apply (simp add: calc_energies_def linalg_eig_def is_mat_def eig_diag_def ev_np
      del: list.size(4) One_nat_def)
  apply (simp add: py_sorted_def argsort_def sorted_by_def c_le_def take_cols_def ev_np
      sys_half_def zero3_def del: list.size(4) One_nat_def)
  done

section \<open>The generated spin matrices in closed form\<close>

lemma bindE_Inr [simp]: "bindE (Inr x) f = f x"
  by (simp add: bindE_def)

lemma bindE_Inl [simp]: "bindE (Inl e) f = Inl e"
  by (simp add: bindE_def)

lemma foldE_append: "foldE f (xs @ ys) s = bindE (foldE f xs s) (foldE f ys)"
  by (induction xs arbitrary: s) (simp_all add: bindE_def split: sum.splits)

lemma set2_mk:
  assumes "r < m" "c < n"
  shows "set2 (mk m n f) r c v = Inr (mk m n (\<lambda>i j. if i = r \<and> j = c then v else f i j))"
proof -
  have "0 < m" using assms by simp
  have "(mk m n f)[r := (mk m n f ! r)[c := v]] = mk m n (\<lambda>i j. if i = r \<and> j = c then v else f i j)"
  proof (rule mat_eqI[where m = m and n = n])
    show "is_mat m n ((mk m n f)[r := (mk m n f ! r)[c := v]])"
      using assms by (auto simp: is_mat_def mk_def dest!: set_update_subset_insert[THEN subsetD])
    show "is_mat m n (mk m n (\<lambda>i j. if i = r \<and> j = c then v else f i j))" by simp
  next
    fix i j assume "i < m" "j < n"
    then show "(mk m n f)[r := (mk m n f ! r)[c := v]] ! i ! j
                 = mk m n (\<lambda>i j. if i = r \<and> j = c then v else f i j) ! i ! j"
      using assms by (simp add: nth_list_update)
  qed
  then show ?thesis
    using assms \<open>0 < m\<close> by (simp add: set2_def)
qed

lemma desc_nth: "r < nat \<lceil>2 * spin + 1\<rceil> \<Longrightarrow> arange_desc spin ! r = spin - real r"
  by (simp add: arange_desc_def)

lemma ladder_lad:
  "r < nat \<lceil>2 * spin + 1\<rceil> \<Longrightarrow> r' < nat \<lceil>2 * spin + 1\<rceil>
     \<Longrightarrow> ladder spin (arange_desc spin) r r' = lad spin r r'"
  by (simp add: ladder_def lad_def desc_nth)

lemma spin_row_first:
  "spin_row spin dm desc 0 (X, Y, Z) =
     bindE (set2 Z 0 0 (complex_of_real (desc ! 0))) (\<lambda>Z.
     bindE (set2 X 0 (Suc 0) (1 / 2 * complex_of_real (ladder spin desc 0 (Suc 0)))) (\<lambda>X.
     bindE (set2 Y 0 (Suc 0) (- (\<i> / 2) * complex_of_real (ladder spin desc 0 (Suc 0)))) (\<lambda>Y.
     Inr (X, Y, Z))))"
  by (simp add: spin_row_def)

lemma spin_row_last:
  "row \<noteq> 0 \<Longrightarrow> row = dm - 1 \<Longrightarrow>
   spin_row spin dm desc row (X, Y, Z) =
     bindE (set2 Z row row (complex_of_real (desc ! row))) (\<lambda>Z.
     bindE (set2 X row (row - 1) (1 / 2 * complex_of_real (ladder spin desc row (row - 1)))) (\<lambda>X.
     bindE (set2 Y row (row - 1) ((\<i> / 2) * complex_of_real (ladder spin desc row (row - 1)))) (\<lambda>Y.
     Inr (X, Y, Z))))"
  by (simp add: spin_row_def)

lemma spin_row_mid:
  "row \<noteq> 0 \<Longrightarrow> row \<noteq> dm - 1 \<Longrightarrow>
   spin_row spin dm desc row (X, Y, Z) =
     bindE (set2 Z row row (complex_of_real (desc ! row))) (\<lambda>Z.
     bindE (set2 X row (row + 1) (1 / 2 * complex_of_real (ladder spin desc row (row + 1)))) (\<lambda>X.
     bindE (set2 X row (row - 1) (1 / 2 * complex_of_real (ladder spin desc row (row - 1)))) (\<lambda>X.
     bindE (set2 Y row (row + 1) (- (\<i> / 2) * complex_of_real (ladder spin desc row (row + 1)))) (\<lambda>Y.
     bindE (set2 Y row (row - 1) ((\<i> / 2) * complex_of_real (ladder spin desc row (row - 1)))) (\<lambda>Y.
     Inr (X, Y, Z))))))"
  by (simp add: spin_row_def)

lemma spin_row_step:
  assumes "row < dm" "2 \<le> dm" "dm \<le> nat \<lceil>2 * spin + 1\<rceil>"
  shows "spin_row spin dm (arange_desc spin) row
           (mk dm dm (upto_row row (sx_entry spin)), mk dm dm (upto_row row (sy_entry spin)),
            mk dm dm (upto_row row (sz_entry spin)))
         = Inr (mk dm dm (upto_row (Suc row) (sx_entry spin)),
                mk dm dm (upto_row (Suc row) (sy_entry spin)),
                mk dm dm (upto_row (Suc row) (sz_entry spin)))"
proof -
  have rl: "row < nat \<lceil>2 * spin + 1\<rceil>" using assms by simp
  have sz: "set2 (mk dm dm (upto_row row (sz_entry spin))) row row
              (complex_of_real (arange_desc spin ! row))
            = Inr (mk dm dm (upto_row (Suc row) (sz_entry spin)))"
    using assms(1) 
    by (simp add: set2_mk desc_nth[OF rl])
       (rule mk_cong, auto simp: upto_row_def sz_entry_def)
  consider (first) "row = 0" | (last) "row \<noteq> 0" "row = dm - 1" | (mid) "row \<noteq> 0" "row \<noteq> dm - 1"
    by blast
  then show ?thesis
  proof cases
    case first
    have l: "ladder spin (arange_desc spin) 0 (Suc 0) = lad spin 0 (Suc 0)"
      using assms by (intro ladder_lad) linarith+
    have x: "set2 (mk dm dm (upto_row 0 (sx_entry spin))) 0 (Suc 0) (1 / 2 * complex_of_real (lad spin 0 (Suc 0)))
              = Inr (mk dm dm (upto_row (Suc 0) (sx_entry spin)))"
      using assms(2) by (simp add: set2_mk) (rule mk_cong, auto simp: upto_row_def sx_entry_def)
    have y: "set2 (mk dm dm (upto_row 0 (sy_entry spin))) 0 (Suc 0) (- (\<i> / 2) * complex_of_real (lad spin 0 (Suc 0)))
              = Inr (mk dm dm (upto_row (Suc 0) (sy_entry spin)))"
      using assms(2) by (simp add: set2_mk) (rule mk_cong, auto simp: upto_row_def sy_entry_def)
    show ?thesis
      unfolding first spin_row_first l
      using sz[unfolded first] x y by (simp only: bindE_Inr)
  next
    case last
    then have r1: "row - 1 < dm" "Suc (row - 1) = row" using assms by simp_all
    have l: "ladder spin (arange_desc spin) row (row - 1) = lad spin row (row - 1)"
      using assms last by (intro ladder_lad) linarith+
    have x: "set2 (mk dm dm (upto_row row (sx_entry spin))) row (row - 1) (1 / 2 * complex_of_real (lad spin row (row - 1)))
              = Inr (mk dm dm (upto_row (Suc row) (sx_entry spin)))"
      using assms(1) r1 last by (simp add: set2_mk) (rule mk_cong, auto simp: upto_row_def sx_entry_def)
    have y: "set2 (mk dm dm (upto_row row (sy_entry spin))) row (row - 1) ((\<i> / 2) * complex_of_real (lad spin row (row - 1)))
              = Inr (mk dm dm (upto_row (Suc row) (sy_entry spin)))"
      using assms(1) r1 last by (simp add: set2_mk) (rule mk_cong, auto simp: upto_row_def sy_entry_def)
    show ?thesis
      unfolding spin_row_last[OF last] l by (simp only: sz x y bindE_Inr)
  next
    case mid
    then have r1: "row - 1 < dm" "Suc (row - 1) = row" "row + 1 < dm" using assms by simp_all
    have l: "ladder spin (arange_desc spin) row (row - 1) = lad spin row (row - 1)"
      "ladder spin (arange_desc spin) row (row + 1) = lad spin row (row + 1)"
      using assms mid r1 by (intro ladder_lad; linarith)+
    have x: "bindE (set2 (mk dm dm (upto_row row (sx_entry spin))) row (row + 1)
                 (1 / 2 * complex_of_real (lad spin row (row + 1))))
               (\<lambda>M. bindE (set2 M row (row - 1) (1 / 2 * complex_of_real (lad spin row (row - 1)))) F)
              = F (mk dm dm (upto_row (Suc row) (sx_entry spin)))" for F :: "cmat \<Rightarrow> error + cmat \<times> cmat \<times> cmat"
      using assms(1) r1 mid by (simp add: set2_mk) (rule arg_cong[where f = F], rule mk_cong, auto simp: upto_row_def sx_entry_def)
    have y: "bindE (set2 (mk dm dm (upto_row row (sy_entry spin))) row (row + 1)
                 (- (\<i> / 2) * complex_of_real (lad spin row (row + 1))))
               (\<lambda>M. bindE (set2 M row (row - 1) ((\<i> / 2) * complex_of_real (lad spin row (row - 1)))) F)
              = F (mk dm dm (upto_row (Suc row) (sy_entry spin)))" for F :: "cmat \<Rightarrow> error + cmat \<times> cmat \<times> cmat"
      using assms(1) r1 mid by (simp add: set2_mk) (rule arg_cong[where f = F], rule mk_cong, auto simp: upto_row_def sy_entry_def less_Suc_eq)
    show ?thesis
      unfolding spin_row_mid[OF mid] l by (simp only: sz x y bindE_Inr)
  qed
qed

lemma spin_rows_fold:
  assumes "k \<le> dm" "2 \<le> dm" "dm \<le> nat \<lceil>2 * spin + 1\<rceil>"
  shows "foldE (spin_row spin dm (arange_desc spin)) [0..<k]
           (mk dm dm (upto_row 0 (sx_entry spin)), mk dm dm (upto_row 0 (sy_entry spin)),
            mk dm dm (upto_row 0 (sz_entry spin)))
         = Inr (mk dm dm (upto_row k (sx_entry spin)), mk dm dm (upto_row k (sy_entry spin)),
                mk dm dm (upto_row k (sz_entry spin)))"
  using assms(1)
proof (induction k)
  case 0
  then show ?case by simp
next
  case (Suc k)
  then have "k < dm" "k \<le> dm" by simp_all
  with Suc.IH spin_row_step[OF \<open>k < dm\<close> assms(2,3)] show ?case
    by (simp add: foldE_append)
qed

lemma upto_row_0: "mk m n (upto_row 0 f) = zeros m n"
  unfolding zeros_def by (rule mk_cong) (simp add: upto_row_def)

lemma upto_row_all: "mk m n (upto_row m f) = mk m n f"
  by (rule mk_cong) (simp add: upto_row_def)

lemma py_int_nonneg: "0 \<le> x \<Longrightarrow> py_int x = \<lfloor>x\<rfloor>"
  by (simp add: py_int_def)

lemma generate_spin_matrices_closed:
  assumes "2 \<le> nat (py_int (2 * spin + 1))"
  shows "generate_spin_matrices spin =
           Inr (Mat (mk (nat (py_int (2 * spin + 1))) (nat (py_int (2 * spin + 1))) (sx_entry spin)),
                Mat (mk (nat (py_int (2 * spin + 1))) (nat (py_int (2 * spin + 1))) (sy_entry spin)),
                Mat (mk (nat (py_int (2 * spin + 1))) (nat (py_int (2 * spin + 1))) (sz_entry spin)))"
proof -
  define dm where "dm = nat (py_int (2 * spin + 1))"
  have pos: "0 < py_int (2 * spin + 1)" using assms by simp
  then have nn: "0 \<le> 2 * spin + 1" by (auto simp: py_int_def split: if_splits)
  have "spin \<noteq> 0" using assms by (auto simp: py_int_def)
  have "dm \<le> nat \<lceil>2 * spin + 1\<rceil>"
    unfolding dm_def py_int_nonneg[OF nn] by (intro nat_mono floor_le_ceiling)
  from spin_rows_fold[OF le_refl _ this] assms
  have "foldE (spin_row spin dm (arange_desc spin)) [0..<dm] (zeros dm dm, zeros dm dm, zeros dm dm)
         = Inr (mk dm dm (sx_entry spin), mk dm dm (sy_entry spin), mk dm dm (sz_entry spin))"
    by (simp add: upto_row_0 upto_row_all dm_def)
  then show ?thesis
    using \<open>spin \<noteq> 0\<close> pos by (simp add: generate_spin_matrices_def Let_def dm_def[symmetric])
qed


section \<open>Commutation relations\<close>

lemma sum_list_upt: "(\<Sum>k\<leftarrow>[0..<n]. h k) = (\<Sum>k<n. (h k :: complex))"
  by (simp add: interv_sum_list_conv_sum_set_nat atLeast0LessThan)

lemma matmul_mk:
  assumes "0 < m" "0 < n"
  shows "matmul (mk m n f) (mk n p g) = mk m p (\<lambda>i j. \<Sum>k<n. f i k * g k j)"
  unfolding matmul_def using assms
  by (simp add: sum_list_upt) (rule mk_cong, simp)

lemma band_sum:
  fixes f g :: "nat \<Rightarrow> complex"
  assumes "\<And>k. k \<noteq> i + 1 \<Longrightarrow> i \<noteq> k + 1 \<Longrightarrow> f k = 0" and "i < m"
  shows "(\<Sum>k<m. f k * g k) =
           (if i + 1 < m then f (i + 1) * g (i + 1) else 0) + (if 0 < i then f (i - 1) * g (i - 1) else 0)"
proof -
  have "(\<Sum>k<m. f k * g k) =
          (\<Sum>k<m. (if k = i + 1 then f k * g k else 0) + (if k = i - 1 \<and> 0 < i then f k * g k else 0))"
  proof (rule sum.cong[OF refl])
    fix k
    show "f k * g k = (if k = i + 1 then f k * g k else 0) + (if k = i - 1 \<and> 0 < i then f k * g k else 0)"
    proof (cases "k = i + 1 \<or> i = k + 1")
      case True
      then show ?thesis by auto
    next
      case False
      then have "f k = 0" using assms(1)[of k] by simp
      with False show ?thesis by auto
    qed
  qed
  also have "\<dots> = (\<Sum>k<m. if k = i + 1 then f k * g k else 0)
                  + (\<Sum>k<m. if k = i - 1 \<and> 0 < i then f k * g k else 0)"
    by (rule sum.distrib)
  also have "(\<Sum>k<m. if k = i + 1 then f k * g k else 0) = (if i + 1 < m then f (i + 1) * g (i + 1) else 0)"
    by (simp add: sum.delta)
  also have "(\<Sum>k<m. if k = i - 1 \<and> 0 < i then f k * g k else 0) = (if 0 < i then f (i - 1) * g (i - 1) else 0)"
  proof (cases "0 < i")
    case True
    then have "i - 1 < m" using assms(2) by simp
    with True show ?thesis by (simp add: sum.delta)
  next
    case False
    then show ?thesis by simp
  qed
  finally show ?thesis .
qed

lemma diag_sum_right:
  fixes f :: "nat \<Rightarrow> complex"
  assumes "j < m"
  shows "(\<Sum>k<m. f k * (if k = j then c k else 0)) = f j * c j"
proof -
  have "(\<Sum>k<m. f k * (if k = j then c k else 0)) = (\<Sum>k<m. if k = j then f k * c k else 0)"
    by (rule sum.cong) auto
  then show ?thesis using assms by (simp add: sum.delta)
qed

lemma diag_sum_left:
  fixes f :: "nat \<Rightarrow> complex"
  assumes "i < m"
  shows "(\<Sum>k<m. (if i = k then c k else 0) * f k) = c i * f i"
proof -
  have "(\<Sum>k<m. (if i = k then c k else 0) * f k) = (\<Sum>k<m. if k = i then c k * f k else 0)"
    by (rule sum.cong) auto
  then show ?thesis using assms by (simp add: sum.delta)
qed

lemma lad_sym: "lad s r c = lad s c r"
  by (simp add: lad_def mult.commute)

lemma lad_sq_up:
  assumes "real i \<le> 2 * s"
  shows "complex_of_real (lad s i (Suc i)) * complex_of_real (lad s i (Suc i))
           = complex_of_real (s * (s + 1) - (s - real i) * (s - real (Suc i)))"
proof -
  have "s * (s + 1) - (s - real i) * (s - real (Suc i)) = (2 * s - real i) * (real i + 1)"
    by (simp add: algebra_simps)
  moreover have "0 \<le> (2 * s - real i) * (real i + 1)"
    using assms by simp
  ultimately have "0 \<le> s * (s + 1) - (s - real i) * (s - real (Suc i))" by simp
  then have "lad s i (Suc i) * lad s i (Suc i) = s * (s + 1) - (s - real i) * (s - real (Suc i))"
    by (simp add: lad_def)
  then show ?thesis
    unfolding of_real_mult[symmetric] by (rule arg_cong)
qed

lemma sx_band: "k \<noteq> i + 1 \<Longrightarrow> i \<noteq> k + 1 \<Longrightarrow> sx_entry s i k = 0"
  by (simp add: sx_entry_def)

lemma sy_band: "k \<noteq> i + 1 \<Longrightarrow> i \<noteq> k + 1 \<Longrightarrow> sy_entry s i k = 0"
  by (simp add: sy_entry_def)

lemma sx_up: "sx_entry s i (Suc i) = complex_of_real (lad s i (Suc i)) / 2"
  and sx_dn: "sx_entry s (Suc i) i = complex_of_real (lad s i (Suc i)) / 2"
  and sy_up: "sy_entry s i (Suc i) = - (\<i> * complex_of_real (lad s i (Suc i)) / 2)"
  and sy_dn: "sy_entry s (Suc i) i = \<i> * complex_of_real (lad s i (Suc i)) / 2"
  by (simp_all add: sx_entry_def sy_entry_def lad_sym[of s "Suc i" i])

lemma lad_sq_c:
  assumes "real i \<le> 2 * s"
  shows "complex_of_real (lad s i (Suc i)) * complex_of_real (lad s i (Suc i))
           = complex_of_real ((2 * s - real i) * (real i + 1))"
proof -
  have eq: "s * (s + 1) - (s - real i) * (s - real (Suc i)) = (2 * s - real i) * (real i + 1)"
    by (simp add: algebra_simps)
  show ?thesis
    using lad_sq_up[OF assms] unfolding eq .
qed

lemma up_term:
  assumes "real i \<le> 2 * s"
  shows "sx_entry s i (Suc i) * sy_entry s (Suc i) i - sy_entry s i (Suc i) * sx_entry s (Suc i) i
           = \<i> * complex_of_real ((2 * s - real i) * (real i + 1)) / 2"
proof -
  have "sx_entry s i (Suc i) * sy_entry s (Suc i) i - sy_entry s i (Suc i) * sx_entry s (Suc i) i
          = \<i> * (complex_of_real (lad s i (Suc i)) * complex_of_real (lad s i (Suc i))) / 2"
    by (simp add: sx_up sx_dn sy_up sy_dn)
  then show ?thesis
    by (simp only: lad_sq_c[OF assms])
qed

lemma dn_term:
  assumes "real i \<le> 2 * s"
  shows "sx_entry s (Suc i) i * sy_entry s i (Suc i) - sy_entry s (Suc i) i * sx_entry s i (Suc i)
           = - (\<i> * complex_of_real ((2 * s - real i) * (real i + 1)) / 2)"
proof -
  have "sx_entry s (Suc i) i * sy_entry s i (Suc i) - sy_entry s (Suc i) i * sx_entry s i (Suc i)
          = - (\<i> * (complex_of_real (lad s i (Suc i)) * complex_of_real (lad s i (Suc i))) / 2)"
    by (simp add: sx_up sx_dn sy_up sy_dn)
  then show ?thesis
    by (simp only: lad_sq_c[OF assms])
qed

lemma i_half:
  fixes a b c :: real
  assumes "a - b = 2 * c"
  shows "\<i> * complex_of_real a / 2 + - (\<i> * complex_of_real b / 2) = \<i> * complex_of_real c"
proof -
  have "a = b + 2 * c" using assms by simp
  then show ?thesis by (simp add: algebra_simps)
qed

lemma comm_xy_entry:
  assumes "i < Suc n" "j < Suc n" "0 < n"
  shows "(\<Sum>k<Suc n. sx_entry (real n / 2) i k * sy_entry (real n / 2) k j)
           - (\<Sum>k<Suc n. sy_entry (real n / 2) i k * sx_entry (real n / 2) k j)
         = \<i> * sz_entry (real n / 2) i j"
proof -
  define s where "s = real n / 2"
  define A where "A = sx_entry s i (Suc i) * sy_entry s (Suc i) j - sy_entry s i (Suc i) * sx_entry s (Suc i) j"
  define B where "B = sx_entry s i (i - 1) * sy_entry s (i - 1) j - sy_entry s i (i - 1) * sx_entry s (i - 1) j"
  have b1: "(\<Sum>k<Suc n. sx_entry s i k * sy_entry s k j) =
          (if i + 1 < Suc n then sx_entry s i (i + 1) * sy_entry s (i + 1) j else 0)
        + (if 0 < i then sx_entry s i (i - 1) * sy_entry s (i - 1) j else 0)"
    by (rule band_sum[OF sx_band assms(1)])
  have b2: "(\<Sum>k<Suc n. sy_entry s i k * sx_entry s k j) =
          (if i + 1 < Suc n then sy_entry s i (i + 1) * sx_entry s (i + 1) j else 0)
        + (if 0 < i then sy_entry s i (i - 1) * sx_entry s (i - 1) j else 0)"
    by (rule band_sum[OF sy_band assms(1)])
  have split: "(\<Sum>k<Suc n. sx_entry s i k * sy_entry s k j) - (\<Sum>k<Suc n. sy_entry s i k * sx_entry s k j)
      = (if i + 1 < Suc n then A else 0) + (if 0 < i then B else 0)"
    unfolding b1 b2 A_def B_def by simp
  consider (diag) "j = i" | (up) "j = i + 2" | (dn) "i = j + 2" | (off) "j \<noteq> i" "j \<noteq> i + 2" "i \<noteq> j + 2"
    by blast
  then have "(if i + 1 < Suc n then A else 0) + (if 0 < i then B else 0) = \<i> * sz_entry s i j"
  proof cases
    case diag
    have le: "real i \<le> 2 * s" using assms(1) by (simp add: s_def)
    have sz: "sz_entry s i j = complex_of_real (s - real i)"
      using diag by (simp add: sz_entry_def)
    have a: "A = \<i> * complex_of_real ((2 * s - real i) * (real i + 1)) / 2"
      unfolding A_def diag by (rule up_term[OF le])
    show ?thesis
    proof (cases i)
      case 0
      show ?thesis
        unfolding a sz using assms(3) 0 by simp
    next
      case (Suc i')
      have le': "real i' \<le> 2 * s" using le Suc by simp
      have b: "B = - (\<i> * complex_of_real ((2 * s - real i') * (real i' + 1)) / 2)"
        unfolding B_def diag Suc diff_Suc_1 by (rule dn_term[OF le'])
      show ?thesis
      proof (cases "i + 1 < Suc n")
        case True
        have "(2 * s - real i) * (real i + 1) - (2 * s - real i') * (real i' + 1) = 2 * (s - real i)"
          unfolding Suc by (simp add: algebra_simps)
        from i_half[OF this] have "A + B = \<i> * complex_of_real (s - real i)"
          unfolding a b .
        then show ?thesis
          unfolding sz using True Suc by simp
      next
        case False
        then have "i = n" using assms(1) by simp
        then have r: "real i' = 2 * s - 1" using Suc by (simp add: s_def)
        have "0 - (2 * s - real i') * (real i' + 1) = 2 * (s - real i)"
          unfolding Suc by (simp add: r)
        from i_half[OF this] have "B = \<i> * complex_of_real (s - real i)"
          unfolding b by simp
        then show ?thesis
          unfolding sz using False Suc by simp
      qed
    qed
  next
    case up
    have ne: "j \<noteq> i - 1 + 1" "i - 1 \<noteq> j + 1" "i \<noteq> j"
      using up by arith+
    have z: "sy_entry s (i - 1) j = 0" "sx_entry s (i - 1) j = 0" "sz_entry s i j = 0"
      using ne by (auto intro: sx_band sy_band simp: sz_entry_def)
    have "A = 0"
      unfolding A_def up by (simp add: sx_up sy_up)
    moreover have "B = 0"
      unfolding B_def z by simp
    ultimately show ?thesis
      by (simp add: z)
  next
    case dn
    have ne: "j \<noteq> Suc i + 1" "Suc i \<noteq> j + 1" "i \<noteq> j"
      using dn by arith+
    have z: "sy_entry s (Suc i) j = 0" "sx_entry s (Suc i) j = 0" "sz_entry s i j = 0"
      using ne by (auto intro: sx_band sy_band simp: sz_entry_def)
    have i: "i = Suc (Suc j)" using dn by simp
    have "A = 0"
      unfolding A_def z by simp
    moreover have "B = 0"
      unfolding B_def i by (simp add: sx_dn sy_dn)
    ultimately show ?thesis
      by (simp add: z)
  next
    case off
    have ne1: "j \<noteq> Suc i + 1" "Suc i \<noteq> j + 1"
      using off by arith+
    have z1: "sx_entry s (Suc i) j = 0" "sy_entry s (Suc i) j = 0"
      using ne1 by (auto intro: sx_band sy_band)
    have z2: "sx_entry s (i - 1) j = 0 \<and> sy_entry s (i - 1) j = 0" if "0 < i"
    proof -
      have "j \<noteq> i - 1 + 1" "i - 1 \<noteq> j + 1" using off that by arith+
      then show ?thesis
        by (auto intro: sx_band sy_band)
    qed
    have z3: "sz_entry s i j = 0"
      using off by (simp add: sz_entry_def)
    have "A = 0"
      unfolding A_def z1 by simp
    moreover have "0 < i \<Longrightarrow> B = 0"
      unfolding B_def using z2 by simp
    ultimately show ?thesis
      by (simp add: z3)
  qed
  then show ?thesis
    unfolding split[symmetric] s_def .
qed


lemma comm_yz_entry:
  assumes "i < m" "j < m"
  shows "(\<Sum>k<m. sy_entry s i k * sz_entry s k j) - (\<Sum>k<m. sz_entry s i k * sy_entry s k j)
         = \<i> * sx_entry s i j"
proof -
  have 1: "(\<Sum>k<m. sy_entry s i k * sz_entry s k j) = sy_entry s i j * complex_of_real (s - real j)"
    unfolding sz_entry_def by (rule diag_sum_right[OF assms(2)])
  have 2: "(\<Sum>k<m. sz_entry s i k * sy_entry s k j) = complex_of_real (s - real i) * sy_entry s i j"
    unfolding sz_entry_def by (rule diag_sum_left[OF assms(1)])
  consider (up) "j = Suc i" | (dn) "i = Suc j" | (off) "j \<noteq> i + 1" "i \<noteq> j + 1" by force
  then have "sy_entry s i j * complex_of_real (s - real j) - complex_of_real (s - real i) * sy_entry s i j
        = \<i> * sx_entry s i j"
  proof cases
    case up
    show ?thesis unfolding up sy_up sx_up by (simp add: field_simps)
  next
    case dn
    show ?thesis unfolding dn sy_dn sx_dn by (simp add: field_simps)
  next
    case off
    then have "sy_entry s i j = 0" "sx_entry s i j = 0"
      by (auto intro: sx_band sy_band)
    then show ?thesis by simp
  qed
  then show ?thesis unfolding 1 2 .
qed

lemma comm_zx_entry:
  assumes "i < m" "j < m"
  shows "(\<Sum>k<m. sz_entry s i k * sx_entry s k j) - (\<Sum>k<m. sx_entry s i k * sz_entry s k j)
         = \<i> * sy_entry s i j"
proof -
  have 1: "(\<Sum>k<m. sx_entry s i k * sz_entry s k j) = sx_entry s i j * complex_of_real (s - real j)"
    unfolding sz_entry_def by (rule diag_sum_right[OF assms(2)])
  have 2: "(\<Sum>k<m. sz_entry s i k * sx_entry s k j) = complex_of_real (s - real i) * sx_entry s i j"
    unfolding sz_entry_def by (rule diag_sum_left[OF assms(1)])
  consider (up) "j = Suc i" | (dn) "i = Suc j" | (off) "j \<noteq> i + 1" "i \<noteq> j + 1" by force
  then have "complex_of_real (s - real i) * sx_entry s i j - sx_entry s i j * complex_of_real (s - real j)
        = \<i> * sy_entry s i j"
  proof cases
    case up
    show ?thesis unfolding up sy_up sx_up by (simp add: field_simps)
  next
    case dn
    show ?thesis unfolding dn sy_dn sx_dn by (simp add: field_simps)
  next
    case off
    then have "sy_entry s i j = 0" "sx_entry s i j = 0"
      by (auto intro: sx_band sy_band)
    then show ?thesis by simp
  qed
  then show ?thesis unfolding 1 2 .
qed

lemma map_map_mk: "map (map h) (mk m n f) = mk m n (\<lambda>i j. h (f i j))"
  by (simp add: mk_def)

lemma nd_scale_mk: "nd_scale c (Mat (mk m n f)) = Mat (mk m n (\<lambda>i j. c * f i j))"
  by (simp add: nd_scale_def nd_map_def wrap_def map_map_mk)

lemma nd_matmul_mk:
  "0 < m \<Longrightarrow> nd_matmul (Mat (mk m m f)) (Mat (mk m m g)) = Inr (Mat (mk m m (\<lambda>i j. \<Sum>k<m. f i k * g k j)))"
  by (simp add: matmul_mk)

lemma bc_at_mk: "i < m \<Longrightarrow> j < n \<Longrightarrow> bc_at (mk m n f) i j = f i j"
  by (auto simp: bc_at_def)

lemma bc_op_mk:
  "0 < m \<Longrightarrow> bc_op h (mk m n f) (mk m n g) = Inr (mk m n (\<lambda>i j. h (f i j) (g i j)))"
  by (auto simp: bc_op_def bc_ok_def bc_dim_def bc_at_mk intro!: mk_cong)

lemma nd_sub_mk:
  "0 < m \<Longrightarrow> nd_sub (Mat (mk m n f)) (Mat (mk m n g)) = Inr (Mat (mk m n (\<lambda>i j. f i j - g i j)))"
  by (simp add: nd_sub_def nd_bc_def bc_op_mk wrap_def)

lemma commutator_mk:
  assumes "0 < m"
  shows "commutator (Mat (mk m m f)) (Mat (mk m m g))
           = Inr (Mat (mk m m (\<lambda>i j. (\<Sum>k<m. f i k * g k j) - (\<Sum>k<m. g i k * f k j))))"
  using assms by (simp add: commutator_def matmul_mk nd_sub_mk)

lemma nd_all_zero_mk: "nd_all_zero (Mat (mk m n (\<lambda>i j. 0)))"
  by (simp add: nd_all_zero_def mk_def list_all_iff)

lemma commutes_toI:
  assumes "0 < m" "commutator X Y = Inr (nd_scale \<i> (Mat (mk m m f)))"
  shows "commutes_to X Y (Mat (mk m m f))"
  using assms by (simp add: commutes_to_def nd_scale_mk nd_sub_mk nd_all_zero_mk)

lemma py_int_half: "nat (py_int (2 * (real n / 2) + 1)) = Suc n"
proof -
  have "\<lfloor>real n + 1\<rfloor> = int n + 1" by linarith
  then show ?thesis by (simp add: py_int_def)
qed

text \<open>
  Claim C7: for every half-integer spin \<open>s = n / 2\<close> the generator returns three arrays
  with \<^verbatim>\<open>Sx @ Sy - Sy @ Sx - 1j * Sz\<close> identically zero, and likewise for the cyclic
  permutations. For \<open>s \<ge> 1/2\<close> the commutator equals \<^verbatim>\<open>1j * Sz\<close> as a matrix; for
  \<open>s = 0\<close> the three arrays are one-dimensional, their product is the number 0 and the
  difference is the array \<open>[0]\<close>.
\<close>

theorem spin_commutation:
  "\<exists>X Y Z. generate_spin_matrices (real n / 2) = Inr (X, Y, Z)
      \<and> commutes_to X Y Z \<and> commutes_to Y Z X \<and> commutes_to Z X Y
      \<and> (0 < n \<longrightarrow> commutator X Y = Inr (nd_scale \<i> Z) \<and> commutator Y Z = Inr (nd_scale \<i> X)
                  \<and> commutator Z X = Inr (nd_scale \<i> Y))"
proof (cases n)
  case 0
  have "commutes_to (Vec [0]) (Vec [0]) (Vec [0])"
    by (simp add: commutes_to_def commutator_def dotv_def nd_sub_def nd_bc_def bc_op_def bc_ok_def
        bc_dim_def bc_at_def nrows_def ncols_def wrap_def mk_def nd_scale_def nd_map_def
        nd_all_zero_def)
  then show ?thesis
    using 0 by (simp add: generate_spin_matrices_def)
next
  case (Suc n')
  define s where "s = real n / 2"
  define m where "m = Suc n"
  have m: "0 < m" by (simp add: m_def)
  have gen: "generate_spin_matrices s = Inr (Mat (mk m m (sx_entry s)), Mat (mk m m (sy_entry s)), Mat (mk m m (sz_entry s)))"
    using generate_spin_matrices_closed[of s] Suc unfolding s_def m_def py_int_half by simp
  have xy: "commutator (Mat (mk m m (sx_entry s))) (Mat (mk m m (sy_entry s))) = Inr (nd_scale \<i> (Mat (mk m m (sz_entry s))))"
    unfolding commutator_mk[OF m] nd_scale_mk
    by (simp, rule mk_cong, unfold m_def s_def, rule comm_xy_entry) (use Suc in simp_all)
  have yz: "commutator (Mat (mk m m (sy_entry s))) (Mat (mk m m (sz_entry s))) = Inr (nd_scale \<i> (Mat (mk m m (sx_entry s))))"
    unfolding commutator_mk[OF m] nd_scale_mk
    by (simp, rule mk_cong, rule comm_yz_entry)
  have zx: "commutator (Mat (mk m m (sz_entry s))) (Mat (mk m m (sx_entry s))) = Inr (nd_scale \<i> (Mat (mk m m (sy_entry s))))"
    unfolding commutator_mk[OF m] nd_scale_mk
    by (simp, rule mk_cong, rule comm_zx_entry)
  show ?thesis
    unfolding s_def[symmetric] gen
    using xy yz zx commutes_toI[OF m xy] commutes_toI[OF m yz] commutes_toI[OF m zx]
    by simp
qed


theorem spin_commutation_witness:
  "(0 :: nat) < 1
     \<and> generate_spin_matrices (real (1 :: nat) / 2)
         = Inr (Mat [[0, 1 / 2], [1 / 2, 0]], Mat [[0, - (\<i> / 2)], [\<i> / 2, 0]],
                Mat [[1 / 2, 0], [0, - (1 / 2)]])
     \<and> commutator (Mat [[0, 1 / 2], [1 / 2, 0]]) (Mat [[0, - (\<i> / 2)], [\<i> / 2, 0]])
         = Inr (nd_scale \<i> (Mat [[1 / 2, 0], [0, - (1 / 2)]]))
     \<and> commutes_to (Mat [[0, - (\<i> / 2)], [\<i> / 2, 0]]) (Mat [[1 / 2, 0], [0, - (1 / 2)]])
           (Mat [[0, 1 / 2], [1 / 2, 0]])"
  using spin_commutation[of 1] by (auto simp: spin_half_matrices)

section \<open>The two-dimensional view of the array operations\<close>

lemma mk_1_1: "mk (Suc 0) (Suc 0) f = [[f 0 0]]"
  by (simp add: mk_def)

lemma length_view2_low: "ndim X \<le> 1 \<Longrightarrow> length (view2 X) = 1"
  by (cases X) simp_all

lemma view2_scalar: "ndim X = 0 \<Longrightarrow> \<exists>c. view2 X = [[c]]"
  by (cases X) simp_all

lemma view2_wrap:
  assumes "k = 0 \<Longrightarrow> \<exists>c. M = [[c]]" "k = 1 \<Longrightarrow> length M = 1"
  shows "view2 (wrap k M) = M"
proof -
  consider "k = 0" | "k = 1" | "k \<noteq> 0" "k \<noteq> 1" by blast
  then show ?thesis
  proof cases
    case 1
    with assms(1) show ?thesis by (auto simp: wrap_def)
  next
    case 2
    with assms(2) have "M = [M ! 0]" by (cases M) simp_all
    with 2 show ?thesis by (simp add: wrap_def)
  next
    case 3
    then show ?thesis by (simp add: wrap_def)
  qed
qed

lemma ndim_wrap: "k \<le> 2 \<Longrightarrow> ndim (wrap k M) = k"
  by (auto simp: wrap_def)

lemma ndim_le2 [simp]: "ndim X \<le> 2"
  by (cases X) simp_all

lemma nrows_view2_scalar: "ndim X = 0 \<Longrightarrow> nrows (view2 X) = 1 \<and> ncols (view2 X) = 1"
  by (cases X) (simp_all add: nrows_def ncols_def)

lemma view2_nd_kron [simp]: "view2 (nd_kron X Y) = kron (view2 X) (view2 Y)"
  unfolding nd_kron_def
proof (rule view2_wrap)
  assume "max (ndim X) (ndim Y) = 0"
  then have "ndim X = 0" "ndim Y = 0" by simp_all
  then obtain a b where "view2 X = [[a]]" "view2 Y = [[b]]"
    using view2_scalar by blast
  then show "\<exists>c. kron (view2 X) (view2 Y) = [[c]]"
    by (simp add: kron_def nrows_def ncols_def mk_1_1)
next
  assume "max (ndim X) (ndim Y) = 1"
  then have "ndim X \<le> 1" "ndim Y \<le> 1" by simp_all
  then show "length (kron (view2 X) (view2 Y)) = 1"
    by (simp add: kron_def nrows_def length_view2_low)
qed

lemma ndim_nd_kron [simp]: "ndim (nd_kron X Y) = max (ndim X) (ndim Y)"
  by (simp add: nd_kron_def ndim_wrap)

lemma view2_nd_map [simp]: "view2 (nd_map f X) = map (map f) (view2 X)"
  by (cases X) (simp_all add: nd_map_def wrap_def)

lemma ndim_nd_map [simp]: "ndim (nd_map f X) = ndim X"
  by (cases X) (simp_all add: nd_map_def wrap_def)

lemma nd_bc_view:
  assumes "nd_bc f X Y = Inr Z"
  shows "bc_op f (view2 X) (view2 Y) = Inr (view2 Z)" and "ndim Z = max (ndim X) (ndim Y)"
proof -
  obtain M where M: "bc_op f (view2 X) (view2 Y) = Inr M" and Z: "Z = wrap (max (ndim X) (ndim Y)) M"
    using assms by (auto simp: nd_bc_def bindE_def split: sum.splits)
  have ok: "bc_ok (nrows (view2 X)) (nrows (view2 Y))" "bc_ok (ncols (view2 X)) (ncols (view2 Y))"
    and Mdef: "M = mk (bc_dim (nrows (view2 X)) (nrows (view2 Y))) (bc_dim (ncols (view2 X)) (ncols (view2 Y)))
                  (\<lambda>i j. f (bc_at (view2 X) i j) (bc_at (view2 Y) i j))"
    using M by (auto simp: bc_op_def split: if_splits)
  have "view2 (wrap (max (ndim X) (ndim Y)) M) = M"
  proof (rule view2_wrap)
    assume "max (ndim X) (ndim Y) = 0"
    then have "ndim X = 0" "ndim Y = 0" by simp_all
    then show "\<exists>c. M = [[c]]"
      unfolding Mdef using nrows_view2_scalar[of X] nrows_view2_scalar[of Y]
      by (simp add: bc_dim_def mk_1_1)
  next
    assume "max (ndim X) (ndim Y) = 1"
    then have "ndim X \<le> 1" "ndim Y \<le> 1" by simp_all
    then show "length M = 1"
      unfolding Mdef by (simp add: bc_dim_def nrows_def length_view2_low)
  qed
  then show "bc_op f (view2 X) (view2 Y) = Inr (view2 Z)" using M Z by simp
  show "ndim Z = max (ndim X) (ndim Y)" using Z by (simp add: ndim_wrap)
qed

lemma nd_matmul_view:
  assumes "nd_matmul X (Mat B) = Inr Z"
  shows "view2 Z = matmul (view2 X) B" and "ncols (view2 X) = nrows B" and "ndim Z = ndim X"
proof -
  show "view2 Z = matmul (view2 X) B" "ncols (view2 X) = nrows B" "ndim Z = ndim X"
    using assms
    by (cases X; auto simp: matmul_def mk_def nrows_def ncols_def split: if_splits)+
qed

lemma bc_at_plain:
  assumes "i < nrows A" "j < ncols A"
  shows "bc_at A i j = A ! i ! j"
  using assms by (auto simp: bc_at_def)


section \<open>Arrays of zeros\<close>

lemma zeros_nth: "i < m \<Longrightarrow> j < n \<Longrightarrow> zeros m n ! i ! j = 0"
  by (simp add: zeros_def)

lemma mk_zero_cols: "mk m 0 f = zeros m 0"
  by (simp add: mk_def zeros_def)

lemma mk_zero_rows: "mk 0 n f = zeros 0 k"
  by (simp add: mk_def zeros_def)

lemma zmI: "(\<And>i j. i < m \<Longrightarrow> j < n \<Longrightarrow> f i j = 0) \<Longrightarrow> zm (mk m n f)"
  unfolding zm_def zeros_def by (intro exI[of _ m] exI[of _ n] mk_cong) simp

lemma nrows_zeros [simp]: "nrows (zeros m n) = m"
  by (simp add: zeros_def)

lemma ncols_zeros [simp]: "0 < m \<Longrightarrow> ncols (zeros m n) = n"
  by (simp add: zeros_def)

lemma ncols_zeros0 [simp]: "ncols (zeros 0 n) = 0"
  by (simp add: zeros_def mk_def ncols_def)

lemma zm_kron_left: "zm A \<Longrightarrow> zm (kron A B)"
proof -
  assume "zm A"
  then obtain m n where A: "A = zeros m n" by (auto simp: zm_def)
  show ?thesis
  proof (cases "m = 0")
    case True
    then show ?thesis unfolding A kron_def by (auto intro: zmI)
  next
    case False
    then have m: "0 < m" by simp
    show ?thesis
      unfolding A kron_def
    proof (rule zmI)
      fix i j assume "i < nrows (zeros m n) * nrows B" "j < ncols (zeros m n) * ncols B"
      then have "i div nrows B < m" "j div ncols B < n"
        using m by (simp_all add: less_mult_imp_div_less)
      then show "zeros m n ! (i div nrows B) ! (j div ncols B) * B ! (i mod nrows B) ! (j mod ncols B) = 0"
        by (simp add: zeros_nth)
    qed
  qed
qed

lemma zm_kron_right: "zm B \<Longrightarrow> zm (kron A B)"
proof -
  assume "zm B"
  then obtain m n where B: "B = zeros m n" by (auto simp: zm_def)
  show ?thesis
  proof (cases "m = 0")
    case True
    then show ?thesis unfolding B kron_def by (auto intro: zmI)
  next
    case False
    then have m: "0 < m" by simp
    show ?thesis
      unfolding B kron_def
    proof (rule zmI)
      fix i j assume "i < nrows A * nrows (zeros m n)" "j < ncols A * ncols (zeros m n)"
      then have "0 < n" using m by (cases n) simp_all
      then have "i mod m < m" "j mod n < n" using m by simp_all
      then show "A ! (i div nrows (zeros m n)) ! (j div ncols (zeros m n))
                   * zeros m n ! (i mod nrows (zeros m n)) ! (j mod ncols (zeros m n)) = 0"
        using m by (simp add: zeros_nth)
    qed
  qed
qed

lemma zm_map: "zm A \<Longrightarrow> h 0 = 0 \<Longrightarrow> zm (map (map h) A)"
proof -
  assume "zm A" and h: "h 0 = 0"
  then obtain m n where "A = zeros m n" by (auto simp: zm_def)
  then have "map (map h) A = mk m n (\<lambda>i j. h 0)"
    by (simp add: zeros_def map_map_mk)
  then show ?thesis using h by (auto intro: zmI)
qed

lemma bc_at_zeros:
  assumes "0 < m" "i < m \<or> m = 1" "j < n \<or> n = 1"
  shows "bc_at (zeros m n) i j = 0"
  using assms by (auto simp: bc_at_def zeros_nth)

lemma bc_index:
  assumes "bc_ok a b" "i < bc_dim a b"
  shows "(i < a \<or> a = 1) \<and> (i < b \<or> b = 1)"
  using assms by (auto simp: bc_ok_def bc_dim_def split: if_splits)

lemma zm_bc_op:
  assumes "zm A" "zm B" "f 0 0 = 0" "bc_op f A B = Inr C"
  shows "zm C"
proof -
  obtain m n m' n' where A: "A = zeros m n" and B: "B = zeros m' n'"
    using assms(1,2) by (auto simp: zm_def)
  have ok: "bc_ok (nrows A) (nrows B)" "bc_ok (ncols A) (ncols B)"
    and C: "C = mk (bc_dim (nrows A) (nrows B)) (bc_dim (ncols A) (ncols B))
                  (\<lambda>i j. f (bc_at A i j) (bc_at B i j))"
    using assms(4) by (auto simp: bc_op_def split: if_splits)
  show ?thesis
  proof (cases "m = 0 \<or> m' = 0")
    case True
    then have "bc_dim (nrows A) (nrows B) = 0"
      using ok(1) unfolding A B by (auto simp: bc_ok_def bc_dim_def)
    then show ?thesis unfolding C by (auto intro: zmI)
  next
    case False
    then have m: "0 < m" "0 < m'" by simp_all
    show ?thesis
      unfolding C
    proof (rule zmI)
      fix i j assume i: "i < bc_dim (nrows A) (nrows B)" and j: "j < bc_dim (ncols A) (ncols B)"
      from bc_index[OF ok(1) i] bc_index[OF ok(2) j]
      have "bc_at A i j = 0" "bc_at B i j = 0"
        unfolding A B using m by (simp_all add: bc_at_zeros)
      then show "f (bc_at A i j) (bc_at B i j) = 0" using assms(3) by simp
    qed
  qed
qed

lemma zm_matmul_left: "zm A \<Longrightarrow> zm (matmul A B)"
proof -
  assume "zm A"
  then obtain m n where A: "A = zeros m n" by (auto simp: zm_def)
  show ?thesis
    unfolding matmul_def A
  proof (rule zmI)
    fix i j assume i: "i < nrows (zeros m n)"
    then have m: "0 < m" "i < m" by simp_all
    have "\<And>k. k \<in> set [0..<n] \<Longrightarrow> zeros m n ! i ! k * B ! k ! j = 0"
      using m by (simp add: zeros_nth)
    then have "(\<Sum>k\<leftarrow>[0..<n]. zeros m n ! i ! k * B ! k ! j) = (\<Sum>k\<leftarrow>[0..<n]. 0)"
      by (intro arg_cong[where f = sum_list] map_cong) simp_all
    then show "(\<Sum>k\<leftarrow>[0..<ncols (zeros m n)]. zeros m n ! i ! k * B ! k ! j) = 0"
      using m by simp
  qed
qed

lemma flat_index: "i < m \<Longrightarrow> j < n \<Longrightarrow> i * n + j < m * (n :: nat)"
proof -
  assume "i < m" "j < n"
  then have "i * n + j < Suc i * n" by simp
  also have "\<dots> \<le> m * n" using \<open>i < m\<close> by (intro mult_le_mono1) simp
  finally show ?thesis .
qed

lemma flat_zeros_nth: "k < length (flat (zeros m n)) \<Longrightarrow> flat (zeros m n) ! k = 0"
proof -
  assume "k < length (flat (zeros m n))"
  then have "flat (zeros m n) ! k \<in> set (flat (zeros m n))" by simp
  moreover have "set (flat (zeros m n)) \<subseteq> {0}"
    by (auto simp: flat_def zeros_def mk_def)
  ultimately show ?thesis by blast
qed

lemma zm_unflat_flat:
  assumes "zm A" "length (flat A) = m * n"
  shows "zm (unflat m n (flat A))"
proof -
  obtain a b where A: "A = zeros a b" using assms(1) by (auto simp: zm_def)
  show ?thesis
    unfolding unflat_def
  proof (rule zmI)
    fix i j assume "i < m" "j < n"
    then have "i * n + j < m * n" by (rule flat_index)
    then show "flat A ! (i * n + j) = 0"
      using assms(2) unfolding A by (simp add: flat_zeros_nth)
  qed
qed


lemma nd_eqI: "ndim X = ndim Y \<Longrightarrow> view2 X = view2 Y \<Longrightarrow> X = Y"
  by (cases X; cases Y) simp_all

lemma shape_eq_view:
  "shape X = shape Y \<Longrightarrow>
     ndim X = ndim Y \<and> nrows (view2 X) = nrows (view2 Y) \<and> ncols (view2 X) = ncols (view2 Y)"
  by (cases X; cases Y) (simp_all add: nrows_def ncols_def)

lemma foldE_invariant:
  assumes "P s" "foldE f xs s = Inr s'"
    and "\<And>x t t'. x \<in> set xs \<Longrightarrow> P t \<Longrightarrow> f x t = Inr t' \<Longrightarrow> P t'"
  shows "P s'"
  using assms
proof (induction xs arbitrary: s)
  case Nil
  then show ?case by simp
next
  case (Cons x xs)
  from Cons.prems(2) obtain t where t: "f x s = Inr t" and r: "foldE f xs t = Inr s'"
    by (cases "f x s") simp_all
  have "P t" using Cons.prems(3)[of x s t] Cons.prems(1) t by simp
  show ?case
  proof (rule Cons.IH[OF \<open>P t\<close> r])
    fix y u u' assume "y \<in> set xs" "P u" "f y u = Inr u'"
    then show "P u'" using Cons.prems(3)[of y u u'] by simp
  qed
qed

lemma nzm_scale: "nzm X \<Longrightarrow> nzm (nd_scale c X)"
  by (simp add: nzm_def nd_scale_def zm_map)

lemma nzm_kron_left: "nzm X \<Longrightarrow> nzm (nd_kron X Y)"
  by (simp add: nzm_def zm_kron_left)

lemma nzm_kron_right: "nzm Y \<Longrightarrow> nzm (nd_kron X Y)"
  by (simp add: nzm_def zm_kron_right)

lemma nzm_matmul: "nd_matmul X (Mat B) = Inr Z \<Longrightarrow> nzm X \<Longrightarrow> nzm Z"
  using nd_matmul_view(1)[of X B Z] by (simp add: nzm_def zm_matmul_left)

lemma nzm_reshape2: "reshape2 X m n = Inr Z \<Longrightarrow> nzm X \<Longrightarrow> nzm Z"
  by (auto simp: reshape2_def nzm_def zm_unflat_flat split: if_splits)

lemma nzm_bc: "nd_bc f X Y = Inr Z \<Longrightarrow> nzm X \<Longrightarrow> nzm Y \<Longrightarrow> f 0 0 = 0 \<Longrightarrow> nzm Z"
  using nd_bc_view(1)[of f X Y Z] zm_bc_op[of "view2 X" "view2 Y" f "view2 Z"]
  by (simp add: nzm_def)

lemma nzm_add: "nd_add X Y = Inr Z \<Longrightarrow> nzm X \<Longrightarrow> nzm Y \<Longrightarrow> nzm Z"
  using nzm_bc[of "(+)" X Y Z] by (simp add: nd_add_def)

lemma nzm_sub: "nd_sub X Y = Inr Z \<Longrightarrow> nzm X \<Longrightarrow> nzm Y \<Longrightarrow> nzm Z"
  using nzm_bc[of "(-)" X Y Z] by (simp add: nd_sub_def)

lemma nd_iadd_Inr: "nd_iadd X Y = Inr Z \<Longrightarrow> nd_add X Y = Inr Z \<and> shape Z = shape X"
  by (cases "nd_add X Y") (simp_all add: nd_iadd_def bindE_def split: if_splits)

lemma py_iadd_Inr: "py_iadd X Y = Inr Z \<Longrightarrow> nd_add X Y = Inr Z"
  by (cases X) (simp_all add: py_iadd_def nd_iadd_Inr)

lemma nzm_py_iadd: "py_iadd X Y = Inr Z \<Longrightarrow> nzm X \<Longrightarrow> nzm Y \<Longrightarrow> nzm Z"
  using py_iadd_Inr nzm_add by blast

lemma nzm_expand_all: "nzm X \<Longrightarrow> nzm (expand_all ns X)"
  unfolding expand_all_def by (induction ns arbitrary: X) (simp_all add: nzm_kron_left)

lemma nzm_expand_at_from:
  "nzm X \<Longrightarrow> nzm (fold (\<lambda>(inner_idx, inner) acc.
             if inner_idx = idx then nd_kron acc Y
             else nd_kron acc (Mat (identity (multH inner)))) (enumerate k ns) X)"
  by (induction ns arbitrary: X k) (simp_all add: nzm_kron_left)

lemma nzm_expand_at_hit:
  "nzm Y \<Longrightarrow> k \<le> idx \<Longrightarrow> idx < k + length ns \<Longrightarrow>
     nzm (fold (\<lambda>(inner_idx, inner) acc.
             if inner_idx = idx then nd_kron acc Y
             else nd_kron acc (Mat (identity (multH inner)))) (enumerate k ns) X)"
proof (induction ns arbitrary: X k)
  case Nil
  then show ?case by simp
next
  case (Cons n ns)
  show ?case
  proof (cases "k = idx")
    case True
    then show ?thesis
      using Cons.prems(1) by (simp add: nzm_expand_at_from nzm_kron_right)
  next
    case False
    then show ?thesis
      using Cons.prems Cons.IH[of "Suc k"] by simp
  qed
qed

lemma nzm_expand_at_left: "nzm X \<Longrightarrow> nzm (expand_at ns idx Y X)"
  unfolding expand_at_def by (rule nzm_expand_at_from)

lemma nzm_expand_at_right: "nzm Y \<Longrightarrow> idx < length ns \<Longrightarrow> nzm (expand_at ns idx Y X)"
  unfolding expand_at_def by (rule nzm_expand_at_hit) simp_all

lemma nzm_B_vec_0: "nzm (B_vec_of 0 t p)"
  unfolding nzm_def B_vec_of_def
  by (simp add: zm_def) (rule exI[of _ 1], rule exI[of _ 3], simp add: zeros_def mk_def upt_ev)

lemma bindE_eq_Inr: "bindE m f = Inr z \<longleftrightarrow> (\<exists>x. m = Inr x \<and> f x = Inr z)"
  by (cases m) simp_all

lemma nzm_HZ_el:
  assumes "HZ_el self Bv g = Inr Z" "nzm Bv"
  shows "nzm Z"
proof -
  from assms(1) obtain X Y T where
    X: "nd_matmul (nd_scale (complex_of_real beta_el) Bv) (Mat (cmat_of g)) = Inr X"
    and Y: "nd_matmul X (Mat (Sv3 self)) = Inr Y"
    and T: "reshape2 Y (multS self) (multS self) = Inr T"
    and Z: "Z = expand_all (neighbours self) (nd_kron T (Mat (identity (multI self))))"
    unfolding HZ_el_def bindE_eq_Inr by auto
  have "nzm T"
    using nzm_reshape2[OF T] nzm_matmul[OF Y] nzm_matmul[OF X] nzm_scale[OF assms(2)] by simp
  then show ?thesis
    unfolding Z by (intro nzm_expand_all nzm_kron_left)
qed

lemma nzm_HZ_n_rei:
  assumes "HZ_n_rei_of self Bv = Inr Z" "nzm Bv"
  shows "nzm Z"
proof -
  from assms(1) obtain Y T where
    Y: "nd_matmul (nd_scale (complex_of_real (beta_n * g_n_rei self)) Bv) (Mat (Iv3 self)) = Inr Y"
    and T: "reshape2 Y (multI self) (multI self) = Inr T"
    and Z: "Z = expand_all (neighbours self) (nd_kron (Mat (identity (multS self))) T)"
    unfolding HZ_n_rei_of_def bindE_eq_Inr by auto
  have "nzm T"
    using nzm_reshape2[OF T] nzm_matmul[OF Y] nzm_scale[OF assms(2)] by simp
  then show ?thesis
    unfolding Z by (intro nzm_expand_all nzm_kron_right)
qed

lemma nzm_HZ_n_host_step:
  assumes "HZ_n_host_step self Bv (idx, neigh) acc = Inr acc'" "nzm Bv" "nzm acc"
    "idx < length (neighbours self)"
  shows "nzm acc'"
proof -
  from assms(1) obtain Y T where
    Y: "nd_matmul (nd_scale (complex_of_real (beta_n * g_n_host neigh)) Bv) (Mat (Hv3 neigh)) = Inr Y"
    and T: "reshape2 Y (multH neigh) (multH neigh) = Inr T"
    and A: "py_iadd acc (expand_at (neighbours self) idx T
              (nd_kron (Mat (identity (multS self))) (Mat (identity (multI self))))) = Inr acc'"
    unfolding HZ_n_host_step_def Let_def prod.case bindE_eq_Inr by auto
  have "nzm T"
    using nzm_reshape2[OF T] nzm_matmul[OF Y] nzm_scale[OF assms(2)] by simp
  then have "nzm (expand_at (neighbours self) idx T
              (nd_kron (Mat (identity (multS self))) (Mat (identity (multI self)))))"
    using assms(4) by (rule nzm_expand_at_right)
  with nzm_py_iadd[OF A assms(3)] show ?thesis by simp
qed

lemma nzm_Scalar0: "nzm (Scalar 0)"
  by (simp add: nzm_def zm_def) (rule exI[of _ 1], rule exI[of _ 1], simp add: zeros_def mk_def)

lemma bindE_InrE:
  assumes "bindE m f = Inr z"
  obtains x where "m = Inr x" "f x = Inr z"
  using assms by (cases m) simp_all

lemma nzm_zeeman_terms:
  assumes "zeeman_terms self 0 t p = Inr (a, b, c, d)"
  shows "nzm a \<and> nzm b \<and> nzm c \<and> nzm d"
proof -
  let ?Bv = "B_vec_of 0 t p"
  from assms obtain a' b' c' d' where a: "HZ_el self ?Bv (g_gs self) = Inr a'"
    and b: "HZ_el self ?Bv (g_es self) = Inr b'"
    and c: "HZ_n_rei_of self ?Bv = Inr c'"
    and d: "foldE (HZ_n_host_step self ?Bv) (enumerate 0 (neighbours self)) (Scalar 0) = Inr d'"
    and e: "(Inr (a', b', c', d') :: error + ndarray \<times> ndarray \<times> ndarray \<times> ndarray) = Inr (a, b, c, d)"
    unfolding zeeman_terms_def Let_def by (elim bindE_InrE) blast
  have "nzm d'"
  proof (rule foldE_invariant[where P = nzm, OF nzm_Scalar0 d])
    fix x acc acc'
    assume x: "x \<in> set (enumerate 0 (neighbours self))" and acc: "nzm acc"
      and s: "HZ_n_host_step self ?Bv x acc = Inr acc'"
    obtain idx neigh where xe: "x = (idx, neigh)" by (cases x)
    with x have i: "idx < length (neighbours self)" by (simp add: in_set_enumerate_eq)
    show "nzm acc'"
      using nzm_HZ_n_host_step[OF s[unfolded xe] nzm_B_vec_0 acc i] .
  qed
  then show ?thesis
    using nzm_HZ_el[OF a nzm_B_vec_0] nzm_HZ_el[OF b nzm_B_vec_0] nzm_HZ_n_rei[OF c nzm_B_vec_0] e
    by simp
qed


section \<open>Hermitian arrays\<close>

lemma hermI:
  assumes "is_mat n n M" "\<And>i j. i < n \<Longrightarrow> j < n \<Longrightarrow> M ! i ! j = cnj (M ! j ! i)"
  shows "herm M"
proof -
  have n: "length M = n" using assms(1) by (simp add: is_mat_def)
  show ?thesis unfolding herm_def n using assms by blast
qed




lemma herm_nth: "herm M \<Longrightarrow> i < length M \<Longrightarrow> j < length M \<Longrightarrow> M ! i ! j = cnj (M ! j ! i)"
  unfolding herm_def by blast




lemma herm_map:
  assumes "herm A" "\<And>x. f (cnj x) = cnj (f x)"
  shows "herm (map (map f) A)"
proof (rule hermI[where n = "length A"])
  show "is_mat (length A) (length A) (map (map f) A)"
    using assms(1) by (auto simp: herm_def is_mat_def)
next
  fix i j assume ij: "i < length A" "j < length A"
  then have "length (A ! i) = length A" "length (A ! j) = length A"
    using assms(1) by (simp_all add: herm_def is_mat_def)
  then show "map (map f) A ! i ! j = cnj (map (map f) A ! j ! i)"
    using ij herm_nth[OF assms(1) ij] assms(2) by simp
qed





lemma vherm_map: "vherm X \<Longrightarrow> (\<And>x. f (cnj x) = cnj (f x)) \<Longrightarrow> vherm (nd_map f X)"
  by (simp add: vherm_def herm_map)



lemma vherm_div: "vherm X \<Longrightarrow> vherm (nd_div X (complex_of_real c))"
  unfolding nd_div_def by (rule vherm_map) simp_all












subsection \<open>Flattened Hermitian matrices and real combinations\<close>


lemma flat_nth: "is_mat m n A \<Longrightarrow> i < m \<Longrightarrow> j < n \<Longrightarrow> flat A ! (i * n + j) = A ! i ! j"
proof (induction A arbitrary: m i)
  case Nil
  then show ?case by (simp add: is_mat_def)
next
  case (Cons r rs)
  then have r: "length r = n" and rs: "is_mat (length rs) n rs" and m: "m = Suc (length rs)"
    by (auto simp: is_mat_def)
  show ?case
  proof (cases i)
    case 0
    then show ?thesis using Cons.prems(3) r by (simp add: flat_def nth_append)
  next
    case (Suc i')
    then have "i' < length rs" using Cons.prems(2) m by simp
    then have "flat rs ! (i' * n + j) = rs ! i' ! j"
      using Cons.IH[OF rs _ Cons.prems(3)] by simp
    then show ?thesis using Suc r by (simp add: flat_def nth_append)
  qed
qed

lemma unflat_flat: "is_mat m n A \<Longrightarrow> unflat m n (flat A) = A"
  by (rule mat_eqI[where m = m and n = n]) (simp_all add: unflat_def flat_nth)













subsection \<open>Spin operators, reshaping and contraction\<close>













subsection \<open>Sums of three square arrays and the ground-state product\<close>










subsection \<open>The hyperfine terms\<close>



lemma is_mat_cmat_view: "is_mat 3 3 (cmat_of g) \<Longrightarrow> is_mat 3 3 (view2 (Mat (cmat_of g)))"
  by simp







subsection \<open>The superhyperfine terms\<close>









section \<open>The spin-0 branch of the generator\<close>

lemma spin_zero_system_fails:
  "SpinSystem_init eig 0 0 zero3 zero3 zero3 zero3 0 [] = Inl LinAlgError"
  apply (simp add: SpinSystem_init_def generate_spin_matrices_def
      py_int_def del: list.size(4) One_nat_def)
  apply (simp add: reshape_stack_def flat_def del: list.size(4) One_nat_def)
  apply (simp add: initialize_HHF_def)
  apply (simp add: ev_np zero3_def del: list.size(4) One_nat_def bindE_Inr bindE_Inl)
  apply (simp add: initialize_SHF_def mu_REI_def shf_total_def)
  apply (simp add: ev_np del: list.size(4) One_nat_def bindE_Inr bindE_Inl)
  apply (simp add: reset_ham_def ev_np del: list.size(4) One_nat_def bindE_Inr bindE_Inl)
  apply (simp add: calc_energies_def linalg_eig_def)
  done

text \<open>
  Claim C8 says that for spin 0 the generator returns three \<open>1 \<times> 1\<close> zero matrices. The
  spin-0 branch returns \<^verbatim>\<open>np.array((0,))\<close> three times: one-dimensional arrays of shape
  \<open>(1,)\<close>, not the two-dimensional arrays that every other spin gets. A system of electron
  spin 0 without ion nucleus and neighbours then has one-dimensional Hamiltonians, and its
  constructor raises \<open>LinAlgError\<close> in \<^verbatim>\<open>np.linalg.eig\<close>.
\<close>

theorem spin_zero_one_dimensional:
  "generate_spin_matrices 0 = Inr (Vec [0], Vec [0], Vec [0])
     \<and> ndim (Vec [0]) = 1 \<and> shape (Vec [0]) = [1]
     \<and> generate_spin_matrices 0 \<noteq> Inr (Mat [[0]], Mat [[0]], Mat [[0]])
     \<and> SpinSystem_init eig 0 0 zero3 zero3 zero3 zero3 0 [] = Inl LinAlgError"
  using spin_zero_system_fails[of eig] by (simp add: generate_spin_matrices_def)

section \<open>Queries\<close>

lemma field_update_skip:
  "B = None \<or> B_theta = None \<or> B_phi = None
     \<Longrightarrow> field_update eig self B B_theta B_phi = (Inr (), self)"
  by (auto simp: field_update_def split: option.splits)

text \<open>
  Claim C5 on the code: \<^verbatim>\<open>branching_contrast\<close> returns no values. Without a field
  update it raises \<open>AttributeError\<close> on every object, for default and for stated levels,
  because it reads the attribute \<^verbatim>\<open>self.multH\<close> that no \<^verbatim>\<open>SpinSystem\<close> has.
\<close>

theorem branching_contrast_raises:
  "fst (branching_contrast eig self None B_theta B_phi stated_levels) = Inl AttributeError"
  by (simp add: branching_contrast_def field_update_def SpinSystem_multH_def bindE_def)

lemma branching_contrast_never_returns:
  "fst (branching_contrast eig self B B_theta B_phi stated_levels) \<noteq> Inr r"
  by (cases "field_update eig self B B_theta B_phi"; cases "fst (field_update eig self B B_theta B_phi)")
     (simp_all add: branching_contrast_def SpinSystem_multH_def bindE_def)

text \<open>
  Claim C9: when no field update is requested, \<^verbatim>\<open>energies\<close> raises exactly when the
  selector is neither \<^verbatim>\<open>'gs'\<close> nor \<^verbatim>\<open>'es'\<close>, and then it raises the bare
  \<^verbatim>\<open>Exception\<close>; for \<^verbatim>\<open>'gs'\<close> and \<^verbatim>\<open>'es'\<close> it returns the stored energy list of that
  manifold, and the object is left as it was.
\<close>

theorem energies_selector:
  assumes "B = None \<or> B_theta = None \<or> B_phi = None"
  shows "(fst (energies eig self state B B_theta B_phi) = Inl PyException
            \<longleftrightarrow> state \<noteq> ''gs'' \<and> state \<noteq> ''es'')
       \<and> (\<forall>e. fst (energies eig self state B B_theta B_phi) = Inl e \<longrightarrow> e = PyException)
       \<and> (state = ''gs'' \<longrightarrow> fst (energies eig self state B B_theta B_phi) = Inr (E_gs self))
       \<and> (state = ''es'' \<longrightarrow> fst (energies eig self state B B_theta B_phi) = Inr (E_es self))
       \<and> snd (energies eig self state B B_theta B_phi) = self"
  using field_update_skip[OF assms, of eig self]
  by (simp add: energies_def)

theorem energies_selector_witness:
  "fst (energies eig_diag sys_half ''gs'' None (Some 1) (Some 0)) = Inr [0, 0]
     \<and> fst (energies eig_diag sys_half ''es'' (Some 1) None None) = Inr [0, 0]
     \<and> fst (energies eig_diag sys_half ''ground'' None None None) = Inl PyException
     \<and> snd (energies eig_diag sys_half ''ground'' None None None) = sys_half"
  using energies_selector[of None "Some 1" "Some 0" eig_diag sys_half "''gs''"]
    energies_selector[of "Some 1" None None eig_diag sys_half "''es''"]
    energies_selector[of None None None eig_diag sys_half "''ground''"]
  by (simp add: sys_half_def)

section \<open>Spin transitions\<close>

lemma filter_less_upt: "i < n \<Longrightarrow> filter (\<lambda>j. i < j) [0..<n] = [Suc i..<n]"
proof (induction n)
  case 0
  then show ?case by simp
next
  case (Suc n)
  show ?case
  proof (cases "i < n")
    case True
    with Suc show ?thesis by simp
  next
    case False
    with Suc.prems have "i = n" by simp
    then show ?thesis by simp
  qed
qed

lemma filter_less_upt_ge: "n \<le> i \<Longrightarrow> filter (\<lambda>j. i < j) [0..<n] = []"
  by (induction n) auto

lemma product_as_concat: "List.product xs ys = concat (map (\<lambda>i. map (Pair i) ys) xs)"
  by (induction xs) simp_all

lemma index_pairs_concat:
  "index_pairs n = concat (map (\<lambda>i. map (Pair i) [Suc i..<n]) [0..<n])"
proof -
  have "index_pairs n = concat (map (\<lambda>i. map (Pair i) (filter (\<lambda>j. i < j) [0..<n])) [0..<n])"
    by (simp add: index_pairs_def product_as_concat filter_concat comp_def filter_map)
  also have "\<dots> = concat (map (\<lambda>i. map (Pair i) [Suc i..<n]) [0..<n])"
    by (rule arg_cong[where f = concat], rule map_cong) (simp_all add: filter_less_upt)
  finally show ?thesis .
qed

lemma pairs_from_index_pairs:
  "pairs_from E (length E) = map (\<lambda>(i, j). (E ! j - E ! i, (1, 1, 1))) (index_pairs (length E))"
  by (simp add: pairs_from_def index_pairs_concat map_concat comp_def)

lemma pairs_from_more:
  "length E \<le> m \<Longrightarrow> pairs_from E m = pairs_from E (length E)"
proof (induction m)
  case 0
  then show ?case by simp
next
  case (Suc m)
  show ?case
  proof (cases "length E = Suc m")
    case True
    then show ?thesis by simp
  next
    case False
    with Suc.prems have le: "length E \<le> m" by simp
    have "pairs_from E (Suc m) = pairs_from E m"
      using le by (simp add: pairs_from_def)
    with Suc.IH[OF le] show ?thesis by simp
  qed
qed

lemma set_index_pairs: "set (index_pairs n) = {(i, j). i < j \<and> j < n}"
  by (auto simp: index_pairs_def)

lemma distinct_index_pairs: "distinct (index_pairs n)"
  by (simp add: index_pairs_def distinct_product)

lemma sum_upto_twice: "2 * (\<Sum>i\<leftarrow>[0..<n]. Suc i) = n * (n + 1)"
  by (induction n) simp_all

lemma sum_complement: "n \<le> m \<Longrightarrow> (\<Sum>i\<leftarrow>[0..<n]. m - Suc i) + (\<Sum>i\<leftarrow>[0..<n]. Suc i) = n * m"
  by (induction n) simp_all

lemma length_index_pairs: "length (index_pairs n) = n * (n - 1) div 2"
proof -
  define s where "s = (\<Sum>i\<leftarrow>[0..<n]. n - Suc i)"
  have len: "length (index_pairs n) = s"
    by (simp add: index_pairs_concat length_concat comp_def s_def)
  have "2 * s + n * (n + 1) = 2 * (n * n)"
    using sum_complement[of n n] sum_upto_twice[of n] by (simp add: s_def)
  then have "2 * s = n * (n - 1)"
    by (cases n) simp_all
  then show ?thesis
    by (simp add: len)
qed

text \<open>
  On an object whose ground spectrum has no more entries than its excited spectrum the
  outer loop of the ground-state list, which runs over the excited spectrum, covers every
  ground index: \<^verbatim>\<open>spin_transitions\<close> then returns for each manifold the entries
  \<open>(E[j] - E[i], (1, 1, 1))\<close> for exactly the index pairs \<open>i < j\<close> of that manifold, each
  pair once, \<open>n (n - 1) / 2\<close> of them for a spectrum of \<open>n\<close> entries.
\<close>

theorem spin_transitions_pairs:
  assumes "field_update eig self B B_theta B_phi = (Inr (), s1)"
    and "length (E_gs s1) \<le> length (E_es s1)"
  shows "spin_transitions eig self B B_theta B_phi =
           (Inr [map (\<lambda>(i, j). (E_gs s1 ! j - E_gs s1 ! i, (1, 1, 1))) (index_pairs (length (E_gs s1))),
                 map (\<lambda>(i, j). (E_es s1 ! j - E_es s1 ! i, (1, 1, 1))) (index_pairs (length (E_es s1)))],
            s1)
       \<and> (\<forall>n. set (index_pairs n) = {(i, j). i < j \<and> j < n} \<and> distinct (index_pairs n)
              \<and> length (index_pairs n) = n * (n - 1) div 2)"
  using assms
  by (simp add: spin_transitions_def pairs_from_more pairs_from_index_pairs set_index_pairs
      distinct_index_pairs length_index_pairs)


theorem spin_transitions_pairs_witness:
  "field_update eig_diag sys_half None None None = (Inr (), sys_half)
     \<and> length (E_gs sys_half) \<le> length (E_es sys_half)
     \<and> spin_transitions eig_diag sys_half None None None
         = (Inr [[(0, (1, 1, 1))], [(0, (1, 1, 1))]], sys_half)"
proof -
  have f: "field_update eig_diag sys_half None None None = (Inr (), sys_half)"
    by (simp add: field_update_def)
  have l: "length (E_gs sys_half) \<le> length (E_es sys_half)"
    by (simp add: sys_half_def)
  have e: "E_gs sys_half = [0, 0]" "E_es sys_half = [0, 0]"
    by (simp_all add: sys_half_def)
  have p: "index_pairs (Suc (Suc 0)) = [(0, Suc 0)]"
    by (simp add: index_pairs_def)
  show ?thesis
    using spin_transitions_pairs[OF f l] f l by (simp add: e p)
qed

lemma sys_lev_transitions:
  "spin_transitions eig sys_lev None None None =
     (Inr [[(1, (1, 1, 1)), (3, (1, 1, 1)), (7, (1, 1, 1)), (2, (1, 1, 1)), (6, (1, 1, 1))],
           [(5, (1, 1, 1))]], sys_lev)"
  by (simp add: spin_transitions_def field_update_def pairs_from_def sys_lev_def sys_half_def)

text \<open>
  Claim C6 says that each manifold, independently of the other, yields the pairs \<open>i < j\<close> of
  its own indices, \<open>n (n - 1) / 2\<close> of them. The outer loop of the ground-state list runs over
  \<^verbatim>\<open>range(len(self.E_es))\<close>: with four ground levels and two excited levels the ground list
  has five entries, and the pair \<open>(2, 3)\<close>, of energy \<open>8 - 4\<close>, is missing from the six.
\<close>

theorem spin_transitions_ground_loop:
  "spin_transitions eig sys_lev None None None =
     (Inr [[(1, (1, 1, 1)), (3, (1, 1, 1)), (7, (1, 1, 1)), (2, (1, 1, 1)), (6, (1, 1, 1))],
           [(5, (1, 1, 1))]], sys_lev)
   \<and> E_gs sys_lev = [1, 2, 4, 8] \<and> E_es sys_lev = [0, 5]
   \<and> (2, 3) \<in> set (index_pairs (length (E_gs sys_lev)))
   \<and> (E_gs sys_lev ! 3 - E_gs sys_lev ! 2, (1, 1, 1))
        \<notin> set [(1, (1, 1, 1)), (3, (1, 1, 1)), (7, (1, 1, 1)), (2, (1, 1, 1)), (6, (1, 1, 1 :: nat))]
   \<and> length (index_pairs (length (E_gs sys_lev))) = 6"
  using sys_lev_transitions[of eig]
  by (simp add: sys_lev_def sys_half_def set_index_pairs length_index_pairs)

section \<open>The optional field arguments\<close>

lemma field_update_all:
  "field_update eig self (Some b) (Some t) (Some p) = update_B eig self b t p"
  by (simp add: field_update_def)

lemma energies_skip:
  "B = None \<or> B_theta = None \<or> B_phi = None \<Longrightarrow>
     energies eig self state B B_theta B_phi =
       (if state = ''gs'' then Inr (E_gs self) else if state = ''es'' then Inr (E_es self)
        else Inl PyException, self)"
  by (simp add: energies_def field_update_skip)

lemma energy_item_skip:
  "B = None \<or> B_theta = None \<or> B_phi = None \<Longrightarrow>
     energy_item eig state B B_theta B_phi j self =
       (if state = ''gs'' then item (E_gs self) j else if state = ''es'' then item (E_es self) j
        else Inl PyException, self)"
  by (simp add: energy_item_def energies_skip)

lemma superhyperfine_skip:
  assumes "B = None \<or> B_theta = None \<or> B_phi = None"
  shows "superhyperfine_levels eig self state B B_theta B_phi =
           superhyperfine_levels eig self state None None None"
    and "snd (superhyperfine_levels eig self state B B_theta B_phi) = self"
  using assms
  by (simp_all add: superhyperfine_levels_def field_update_skip energy_item_skip Let_def
      split: sum.splits)

text \<open>
  Claim C10: each of the five queries updates the field (\<^verbatim>\<open>update_B\<close>: Zeeman rebuild
  and diagonalisation) only when all three of \<open>B\<close>, \<open>B_theta\<close>, \<open>B_phi\<close> are given. If
  one of them is \<open>None\<close>, the outcome is that of the call without field arguments, computed
  from the stored state, and the object is left as it was. If all three are given, the
  query runs on the object that \<^verbatim>\<open>update_B\<close> leaves, and an exception of \<^verbatim>\<open>update_B\<close>
  is passed on.
\<close>

theorem field_gating:
  "(B = None \<or> B_theta = None \<or> B_phi = None \<longrightarrow>
      energies eig self state B B_theta B_phi = energies eig self state None None None
    \<and> snd (energies eig self state B B_theta B_phi) = self
    \<and> spin_transitions eig self B B_theta B_phi = spin_transitions eig self None None None
    \<and> snd (spin_transitions eig self B B_theta B_phi) = self
    \<and> optical_transitions eig self B B_theta B_phi cs = optical_transitions eig self None None None cs
    \<and> snd (optical_transitions eig self B B_theta B_phi cs) = self
    \<and> superhyperfine_levels eig self state B B_theta B_phi
         = superhyperfine_levels eig self state None None None
    \<and> snd (superhyperfine_levels eig self state B B_theta B_phi) = self
    \<and> branching_contrast eig self B B_theta B_phi lv = branching_contrast eig self None None None lv
    \<and> snd (branching_contrast eig self B B_theta B_phi lv) = self)
   \<and> (\<forall>b t p s1. update_B eig self b t p = (Inr (), s1) \<longrightarrow>
      energies eig self state (Some b) (Some t) (Some p) = energies eig s1 state None None None
    \<and> spin_transitions eig self (Some b) (Some t) (Some p) = spin_transitions eig s1 None None None
    \<and> optical_transitions eig self (Some b) (Some t) (Some p) cs
         = optical_transitions eig s1 None None None cs
    \<and> branching_contrast eig self (Some b) (Some t) (Some p) lv
         = branching_contrast eig s1 None None None lv)
   \<and> (\<forall>b t p e s1. update_B eig self b t p = (Inl e, s1) \<longrightarrow>
      energies eig self state (Some b) (Some t) (Some p) = (Inl e, s1)
    \<and> spin_transitions eig self (Some b) (Some t) (Some p) = (Inl e, s1)
    \<and> optical_transitions eig self (Some b) (Some t) (Some p) cs = (Inl e, s1)
    \<and> superhyperfine_levels eig self state (Some b) (Some t) (Some p) = (Inl e, s1)
    \<and> branching_contrast eig self (Some b) (Some t) (Some p) lv = (Inl e, s1))"
proof (intro conjI impI allI)
  assume a: "B = None \<or> B_theta = None \<or> B_phi = None"
  note fu = field_update_skip[OF a] field_update_skip[of None None None]
  show "energies eig self state B B_theta B_phi = energies eig self state None None None"
    and "snd (energies eig self state B B_theta B_phi) = self"
    by (simp_all add: energies_def fu)
 show "spin_transitions eig self B B_theta B_phi = spin_transitions eig self None None None"
    and "snd (spin_transitions eig self B B_theta B_phi) = self"
    by (simp_all add: spin_transitions_def fu)
  show "optical_transitions eig self B B_theta B_phi cs = optical_transitions eig self None None None cs"
    and "snd (optical_transitions eig self B B_theta B_phi cs) = self"
    by (simp_all add: optical_transitions_def fu)
  show "superhyperfine_levels eig self state B B_theta B_phi
         = superhyperfine_levels eig self state None None None"
    and "snd (superhyperfine_levels eig self state B B_theta B_phi) = self"
    using superhyperfine_skip[OF a] by simp_all
  show "branching_contrast eig self B B_theta B_phi lv = branching_contrast eig self None None None lv"
    and "snd (branching_contrast eig self B B_theta B_phi lv) = self"
    by (simp_all add: branching_contrast_def fu)
next
  fix b t p s1
  assume u: "update_B eig self b t p = (Inr (), s1)"
  note fu = field_update_all field_update_skip[of None None None]
  show "energies eig self state (Some b) (Some t) (Some p) = energies eig s1 state None None None"
    by (simp add: energies_def fu u)
  show "spin_transitions eig self (Some b) (Some t) (Some p) = spin_transitions eig s1 None None None"
    by (simp add: spin_transitions_def fu u)
  show "optical_transitions eig self (Some b) (Some t) (Some p) cs
         = optical_transitions eig s1 None None None cs"
    by (simp add: optical_transitions_def fu u)
  show "branching_contrast eig self (Some b) (Some t) (Some p) lv
         = branching_contrast eig s1 None None None lv"
    by (simp add: branching_contrast_def fu u)
next
  fix b t p e s1
  assume u: "update_B eig self b t p = (Inl e, s1)"
  show "energies eig self state (Some b) (Some t) (Some p) = (Inl e, s1)"
    by (simp add: energies_def field_update_all u)
  show "spin_transitions eig self (Some b) (Some t) (Some p) = (Inl e, s1)"
    by (simp add: spin_transitions_def field_update_all u)
  show "optical_transitions eig self (Some b) (Some t) (Some p) cs = (Inl e, s1)"
    by (simp add: optical_transitions_def field_update_all u)
  show "superhyperfine_levels eig self state (Some b) (Some t) (Some p) = (Inl e, s1)"
    by (simp add: superhyperfine_levels_def field_update_all u)
  show "branching_contrast eig self (Some b) (Some t) (Some p) lv = (Inl e, s1)"
    by (simp add: branching_contrast_def field_update_all u)
qed


lemma sys_half_levels: "E_gs sys_half = [0, 0]" "E_es sys_half = [0, 0]"
  by (simp_all add: sys_half_def)

theorem field_gating_witness:
  "((None :: real option) = None \<or> Some (1 :: real) = None \<or> Some (2 :: real) = None)
    \<and> energies eig_diag sys_half ''gs'' None (Some 1) (Some 2)
        = energies eig_diag sys_half ''gs'' None None None
    \<and> snd (energies eig_diag sys_half ''gs'' None (Some 1) (Some 2)) = sys_half
    \<and> spin_transitions eig_diag sys_half None (Some 1) (Some 2)
        = spin_transitions eig_diag sys_half None None None
    \<and> snd (spin_transitions eig_diag sys_half None (Some 1) (Some 2)) = sys_half
    \<and> optical_transitions eig_diag sys_half None (Some 1) (Some 2) True
        = optical_transitions eig_diag sys_half None None None True
    \<and> snd (optical_transitions eig_diag sys_half None (Some 1) (Some 2) True) = sys_half
    \<and> superhyperfine_levels eig_diag sys_half ''gs'' None (Some 1) (Some 2)
        = superhyperfine_levels eig_diag sys_half ''gs'' None None None
    \<and> snd (superhyperfine_levels eig_diag sys_half ''gs'' None (Some 1) (Some 2)) = sys_half
    \<and> branching_contrast eig_diag sys_half None (Some 1) (Some 2) None
        = branching_contrast eig_diag sys_half None None None None
    \<and> snd (branching_contrast eig_diag sys_half None (Some 1) (Some 2) None) = sys_half"
proof -
  have h: "(None :: real option) = None \<or> Some (1 :: real) = None \<or> Some (2 :: real) = None"
    by simp
  from field_gating[of None "Some 1" "Some 2" eig_diag sys_half "''gs''" True None]
  have "(None :: real option) = None \<or> Some (1 :: real) = None \<or> Some (2 :: real) = None \<longrightarrow>
      energies eig_diag sys_half ''gs'' None (Some 1) (Some 2)
        = energies eig_diag sys_half ''gs'' None None None
    \<and> snd (energies eig_diag sys_half ''gs'' None (Some 1) (Some 2)) = sys_half
    \<and> spin_transitions eig_diag sys_half None (Some 1) (Some 2)
        = spin_transitions eig_diag sys_half None None None
    \<and> snd (spin_transitions eig_diag sys_half None (Some 1) (Some 2)) = sys_half
    \<and> optical_transitions eig_diag sys_half None (Some 1) (Some 2) True
        = optical_transitions eig_diag sys_half None None None True
    \<and> snd (optical_transitions eig_diag sys_half None (Some 1) (Some 2) True) = sys_half
    \<and> superhyperfine_levels eig_diag sys_half ''gs'' None (Some 1) (Some 2)
        = superhyperfine_levels eig_diag sys_half ''gs'' None None None
    \<and> snd (superhyperfine_levels eig_diag sys_half ''gs'' None (Some 1) (Some 2)) = sys_half
    \<and> branching_contrast eig_diag sys_half None (Some 1) (Some 2) None
        = branching_contrast eig_diag sys_half None None None None
    \<and> snd (branching_contrast eig_diag sys_half None (Some 1) (Some 2) None) = sys_half"
    by (rule conjunct1)
  with h show ?thesis
    by blast
qed

section \<open>The Zeeman rebuild\<close>

lemma wf_nd_bc: "nd_bc f X Y = Inr Z \<Longrightarrow> wf_nd Z"
proof -
  assume "nd_bc f X Y = Inr Z"
  from nd_bc_view(1)[OF this]
  have "view2 Z = mk (bc_dim (nrows (view2 X)) (nrows (view2 Y))) (bc_dim (ncols (view2 X)) (ncols (view2 Y)))
                     (\<lambda>i j. f (bc_at (view2 X) i j) (bc_at (view2 Y) i j))"
    by (simp add: bc_op_def split: if_splits)
  then obtain a b g where v: "view2 Z = mk a b g" by blast
  show ?thesis
  proof (cases "a = 0")
    case True
    then show ?thesis unfolding wf_nd_def v by (simp add: mk_def is_mat_def nrows_def)
  next
    case False
    then show ?thesis unfolding wf_nd_def v by simp
  qed
qed

lemma nd_iadd_zero:
  assumes "nd_iadd X Z = Inr X'" "nzm Z" "wf_nd X"
  shows "X' = X"
proof -
  from nd_iadd_Inr[OF assms(1)] have add: "nd_add X Z = Inr X'" and sh: "shape X' = shape X"
    by simp_all
  from shape_eq_view[OF sh] have nd: "ndim X' = ndim X" by simp
  from shape_eq_view[OF sh] have r: "nrows (view2 X') = nrows (view2 X)"
    and c: "ncols (view2 X') = ncols (view2 X)" by simp_all
  define A where "A = view2 X"
  define Zv where "Zv = view2 Z"
  obtain m n where Z: "Zv = zeros m n" using assms(2) by (auto simp: nzm_def zm_def Zv_def)
  from nd_bc_view(1)[OF add[unfolded nd_add_def]]
  have ok: "bc_ok (nrows A) (nrows Zv)" "bc_ok (ncols A) (ncols Zv)"
    and v: "view2 X' = mk (bc_dim (nrows A) (nrows Zv)) (bc_dim (ncols A) (ncols Zv))
                          (\<lambda>i j. bc_at A i j + bc_at Zv i j)"
    unfolding A_def Zv_def by (auto simp: bc_op_def split: if_splits)
  have wf: "is_mat (nrows A) (ncols A) A" using assms(3) by (simp add: wf_nd_def A_def)
  have r': "bc_dim (nrows A) (nrows Zv) = nrows A" using r unfolding v A_def by simp
  have "view2 X' = view2 X"
  proof (cases "nrows A = 0")
    case True
    then have "A = []" by (simp add: nrows_def)
    then show ?thesis using v r' True by (simp add: A_def mk_def)
  next
    case False
    then have pos: "0 < nrows A" by simp
    have "ncols (view2 X') = bc_dim (ncols A) (ncols Zv)"
      unfolding v r' using pos by simp
    then have c': "bc_dim (ncols A) (ncols Zv) = ncols A"
      using c by (simp add: A_def)
    have "mk (nrows A) (ncols A) (\<lambda>i j. bc_at A i j + bc_at Zv i j) = A"
    proof (rule mat_eqI[OF _ wf])
      show "is_mat (nrows A) (ncols A) (mk (nrows A) (ncols A) (\<lambda>i j. bc_at A i j + bc_at Zv i j))"
        by simp
    next
      fix i j assume i: "i < nrows A" and j: "j < ncols A"
      from bc_index[OF ok(1)] i r' have zi: "i < nrows Zv \<or> nrows Zv = 1" by simp
      then have m: "0 < m" unfolding Z by auto
      from bc_index[OF ok(2)] j c' have zj: "j < ncols Zv \<or> ncols Zv = 1" by simp
      have "bc_at Zv i j = 0"
        unfolding Z using m zi zj unfolding Z by (intro bc_at_zeros) simp_all
      then show "mk (nrows A) (ncols A) (\<lambda>i j. bc_at A i j + bc_at Zv i j) ! i ! j = A ! i ! j"
        using i j by (simp add: bc_at_plain)
    qed
    then show ?thesis unfolding v r' c' by (simp add: A_def)
  qed
  with nd show ?thesis by (rule nd_eqI)
qed

lemma reset_ham_Inr:
  assumes "reset_ham self = (Inr (), s1)"
  obtains hg he where "nd_add (HHF_gs self) (H_SHF_gs self) = Inr hg"
    "nd_add (HHF_es self) (H_SHF_es self) = Inr he" "s1 = self\<lparr>H_gs := hg, H_es := he\<rparr>"
  using assms by (auto simp: reset_ham_def split: sum.splits)

lemma HZ_n_host_step_frame:
  "HZ_n_host_step (self\<lparr>H_gs := X, H_es := Y\<rparr>) = HZ_n_host_step self"
  by (intro ext) (simp add: HZ_n_host_step_def)

lemma zeeman_terms_frame:
  "zeeman_terms (self\<lparr>H_gs := X, H_es := Y\<rparr>) B t p = zeeman_terms self B t p"
  by (simp add: zeeman_terms_def HZ_el_def HZ_n_rei_of_def HZ_n_host_step_frame)

lemma reset_ham_frame:
  "reset_ham self = (Inr (), s1) \<Longrightarrow> reset_ham (self\<lparr>H_gs := X, H_es := Y\<rparr>) = (Inr (), s1)"
  by (auto simp: reset_ham_def split: sum.splits)

lemma update_zeeman_ham_Inr:
  assumes "update_zeeman_ham self B t p = (Inr (), s1)"
  obtains zg ze zn zh s0 hg he where
    "zeeman_terms self B t p = Inr (zg, ze, zn, zh)"
    "reset_ham self = (Inr (), s0)"
    "add_zeeman (H_gs s0) zg zn zh = Inr hg"
    "add_zeeman (H_es s0) ze zn zh = Inr he"
    "s1 = s0\<lparr>H_gs := hg, H_es := he\<rparr>"
proof -
  obtain zg ze zn zh where z: "zeeman_terms self B t p = Inr (zg, ze, zn, zh)"
    using assms by (cases "zeeman_terms self B t p") (auto simp: update_zeeman_ham_def)
  obtain r s0 where rs: "reset_ham self = (r, s0)" by (cases "reset_ham self")
  have r: "r = Inr ()"
    using assms z rs by (cases r) (simp_all add: update_zeeman_ham_def)
  obtain hg where hg: "add_zeeman (H_gs s0) zg zn zh = Inr hg"
    using assms z rs r by (cases "add_zeeman (H_gs s0) zg zn zh") (simp_all add: update_zeeman_ham_def)
  obtain he where he: "add_zeeman (H_es s0) ze zn zh = Inr he"
    using assms z rs r hg by (cases "add_zeeman (H_es s0) ze zn zh") (simp_all add: update_zeeman_ham_def)
  have "s1 = s0\<lparr>H_gs := hg, H_es := he\<rparr>"
    using assms z rs r hg he by (simp add: update_zeeman_ham_def)
  with z rs r hg he show ?thesis using that by blast
qed

lemma update_zeeman_ham_frame:
  assumes "update_zeeman_ham self B t p = (Inr (), s1)"
  shows "update_zeeman_ham (self\<lparr>H_gs := X, H_es := Y\<rparr>) B t p = (Inr (), s1)"
proof -
  from assms obtain zg ze zn zh s0 hg he where
    z: "zeeman_terms self B t p = Inr (zg, ze, zn, zh)"
    and rs: "reset_ham self = (Inr (), s0)"
    and hg: "add_zeeman (H_gs s0) zg zn zh = Inr hg"
    and he: "add_zeeman (H_es s0) ze zn zh = Inr he"
    and s1: "s1 = s0\<lparr>H_gs := hg, H_es := he\<rparr>"
    by (rule update_zeeman_ham_Inr)
  show ?thesis
    unfolding update_zeeman_ham_def zeeman_terms_frame z
    by (simp add: reset_ham_frame[OF rs] hg he s1)
qed

lemma add_zeeman_zero:
  assumes "add_zeeman Hc a c d = Inr H'" "nzm a" "nzm c" "nzm d" "wf_nd Hc"
  shows "H' = Hc"
proof -
  from assms(1) obtain X Z where X: "nd_sub a c = Inr X" and Z: "nd_sub X d = Inr Z"
    and H: "nd_iadd Hc Z = Inr H'"
    unfolding add_zeeman_def by (elim bindE_InrE) blast
  have "nzm Z" using nzm_sub[OF Z nzm_sub[OF X assms(2,3)] assms(4)] .
  then show ?thesis using nd_iadd_zero[OF H _ assms(5)] by simp
qed

text \<open>
  Whenever \<^verbatim>\<open>update_zeeman_ham(B, theta, phi)\<close> returns, each working Hamiltonian is the
  cached sum (hyperfine plus superhyperfine, as \<^verbatim>\<open>reset_ham\<close> forms it) with that field's
  Zeeman terms added in place. The result does not depend on the working Hamiltonians the
  object held before, so a second call with the same field changes nothing, and at
  \<open>B = 0\<close> the working Hamiltonians are exactly the cached sums.
\<close>

theorem zeeman_rebuild:
  assumes "update_zeeman_ham self B B_theta B_phi = (Inr (), s1)"
  shows "(\<exists>hg he zg ze zn zh.
            nd_add (HHF_gs self) (H_SHF_gs self) = Inr hg
          \<and> nd_add (HHF_es self) (H_SHF_es self) = Inr he
          \<and> zeeman_terms self B B_theta B_phi = Inr (zg, ze, zn, zh)
          \<and> add_zeeman hg zg zn zh = Inr (H_gs s1)
          \<and> add_zeeman he ze zn zh = Inr (H_es s1)
          \<and> s1 = self\<lparr>H_gs := H_gs s1, H_es := H_es s1\<rparr>)
       \<and> update_zeeman_ham s1 B B_theta B_phi = (Inr (), s1)
       \<and> (\<forall>X Y. update_zeeman_ham (self\<lparr>H_gs := X, H_es := Y\<rparr>) B B_theta B_phi = (Inr (), s1))
       \<and> (B = 0 \<longrightarrow> reset_ham self = (Inr (), s1))"
proof -
  from assms obtain zg ze zn zh s0 hg he where
    z: "zeeman_terms self B B_theta B_phi = Inr (zg, ze, zn, zh)"
    and rs: "reset_ham self = (Inr (), s0)"
    and hg: "add_zeeman (H_gs s0) zg zn zh = Inr hg"
    and he: "add_zeeman (H_es s0) ze zn zh = Inr he"
    and s1: "s1 = s0\<lparr>H_gs := hg, H_es := he\<rparr>"
    by (rule update_zeeman_ham_Inr)
  from rs obtain cg ce where cg: "nd_add (HHF_gs self) (H_SHF_gs self) = Inr cg"
    and ce: "nd_add (HHF_es self) (H_SHF_es self) = Inr ce"
    and s0: "s0 = self\<lparr>H_gs := cg, H_es := ce\<rparr>"
    by (rule reset_ham_Inr)
  have s1': "s1 = self\<lparr>H_gs := hg, H_es := he\<rparr>"
    unfolding s1 s0 by simp
  have 1: "\<exists>hg he zg ze zn zh.
            nd_add (HHF_gs self) (H_SHF_gs self) = Inr hg
          \<and> nd_add (HHF_es self) (H_SHF_es self) = Inr he
          \<and> zeeman_terms self B B_theta B_phi = Inr (zg, ze, zn, zh)
          \<and> add_zeeman hg zg zn zh = Inr (H_gs s1)
          \<and> add_zeeman he ze zn zh = Inr (H_es s1)
          \<and> s1 = self\<lparr>H_gs := H_gs s1, H_es := H_es s1\<rparr>"
    using cg ce z hg he unfolding s1' s0 by auto
  have 3: "update_zeeman_ham (self\<lparr>H_gs := X, H_es := Y\<rparr>) B B_theta B_phi = (Inr (), s1)" for X Y
    using assms by (rule update_zeeman_ham_frame)
  have 2: "update_zeeman_ham s1 B B_theta B_phi = (Inr (), s1)"
    using 3[where X = hg and Y = he] unfolding s1' .
  have 4: "reset_ham self = (Inr (), s1)" if "B = 0"
  proof -
    from nzm_zeeman_terms[OF z[unfolded that]] have n: "nzm zg" "nzm ze" "nzm zn" "nzm zh"
      by simp_all
    have wf: "wf_nd (H_gs s0)" "wf_nd (H_es s0)"
      unfolding s0 using wf_nd_bc[OF cg[unfolded nd_add_def]] wf_nd_bc[OF ce[unfolded nd_add_def]]
      by simp_all
    have "hg = H_gs s0" using add_zeeman_zero[OF hg n(1,3,4) wf(1)] .
    moreover have "he = H_es s0" using add_zeeman_zero[OF he n(2,3,4) wf(2)] .
    ultimately have "s1 = s0" unfolding s1 by simp
    then show ?thesis using rs by simp
  qed
  from 1 2 3 4 show ?thesis by blast
qed


lemma sys_g_init:
  "SpinSystem_init eig_diag (1 / 2) 0 diag2 diag2 zero3 zero3 0 [] = Inr sys_g"
  apply (simp add: SpinSystem_init_def spin_half_matrices generate_spin_matrices_def[of 0]
      py_int_def del: list.size(4) One_nat_def)
  apply (simp add: reshape_stack_def flat_def del: list.size(4) One_nat_def)
  apply (simp add: initialize_HHF_def)
  apply (simp add: ev_np zero3_def del: list.size(4) One_nat_def bindE_Inr bindE_Inl)
  apply (simp add: initialize_SHF_def mu_REI_def shf_total_def)
  apply (simp add: ev_np diag2_def del: list.size(4) One_nat_def bindE_Inr bindE_Inl)
  apply (simp add: reset_ham_def ev_np del: list.size(4) One_nat_def bindE_Inr bindE_Inl)
  apply (simp add: calc_energies_def linalg_eig_def is_mat_def eig_diag_def ev_np
      del: list.size(4) One_nat_def bindE_Inr bindE_Inl)
  apply (simp add: py_sorted_def argsort_def sorted_by_def c_le_def take_cols_def ev_np
      sys_g_def sys_half_def zero3_def diag2_def del: list.size(4) One_nat_def bindE_Inr bindE_Inl)
  done

lemma sys_g_zeeman:
  "zeeman_terms sys_g 1 0 0 =
     Inr (Mat [[complex_of_real beta_el, 0], [0, - complex_of_real beta_el]],
          Mat [[complex_of_real beta_el, 0], [0, - complex_of_real beta_el]],
          Mat [[0, 0], [0, 0]], Scalar 0)"
  apply (simp add: zeeman_terms_def B_vec_of_def HZ_el_def HZ_n_rei_of_def sys_g_def sys_half_def)
  apply (simp add: ev_np diag2_def dotv_def del: list.size(4) One_nat_def bindE_Inr bindE_Inl)
  done

lemma sys_g_update:
  "update_zeeman_ham sys_g 1 0 0 =
     (Inr (), sys_g\<lparr>H_gs := Mat [[complex_of_real beta_el, 0], [0, - complex_of_real beta_el]],
                     H_es := Mat [[complex_of_real beta_el, 0], [0, - complex_of_real beta_el]]\<rparr>)"
  apply (simp add: update_zeeman_ham_def sys_g_zeeman)
  apply (simp add: reset_ham_def sys_g_def sys_half_def)
  apply (simp add: ev_np del: list.size(4) One_nat_def bindE_Inr bindE_Inl)
  apply (simp add: add_zeeman_def nd_iadd_def ev_np del: list.size(4) One_nat_def bindE_Inr bindE_Inl)
  done


lemma sys_g_update_zero: "update_zeeman_ham sys_g 0 0 0 = (Inr (), sys_g)"
  apply (simp add: update_zeeman_ham_def zeeman_terms_def B_vec_of_def HZ_el_def HZ_n_rei_of_def
      sys_g_def sys_half_def)
  apply (simp add: ev_np diag2_def dotv_def del: list.size(4) One_nat_def bindE_Inr bindE_Inl)
  apply (simp add: reset_ham_def)
  apply (simp add: ev_np del: list.size(4) One_nat_def bindE_Inr bindE_Inl)
  apply (simp add: add_zeeman_def nd_iadd_def ev_np del: list.size(4) One_nat_def bindE_Inr bindE_Inl)
  done

theorem zeeman_rebuild_witness:
  "update_zeeman_ham sys_g 1 0 0 =
     (Inr (), sys_g\<lparr>H_gs := Mat [[complex_of_real beta_el, 0], [0, - complex_of_real beta_el]],
                     H_es := Mat [[complex_of_real beta_el, 0], [0, - complex_of_real beta_el]]\<rparr>)
   \<and> update_zeeman_ham
         (sys_g\<lparr>H_gs := Mat [[complex_of_real beta_el, 0], [0, - complex_of_real beta_el]],
                 H_es := Mat [[complex_of_real beta_el, 0], [0, - complex_of_real beta_el]]\<rparr>) 1 0 0 =
     (Inr (), sys_g\<lparr>H_gs := Mat [[complex_of_real beta_el, 0], [0, - complex_of_real beta_el]],
                     H_es := Mat [[complex_of_real beta_el, 0], [0, - complex_of_real beta_el]]\<rparr>)
   \<and> update_zeeman_ham sys_g 0 0 0 = (Inr (), sys_g)
   \<and> reset_ham sys_g = (Inr (), sys_g)"
  using zeeman_rebuild[OF sys_g_update] zeeman_rebuild[OF sys_g_update_zero] sys_g_update
    sys_g_update_zero
  by blast

subsection \<open>Dimension of the two Hamiltonians\<close>

lemma sys_nuc_init:
  "SpinSystem_init eig_diag (1 / 2) (1 / 2) zero3 zero3 zero3 zero3 0 [] = Inr sys_nuc"
  apply (simp add: SpinSystem_init_def spin_half_matrices
      py_int_def del: list.size(4) One_nat_def)
  apply (simp add: reshape_stack_def flat_def del: list.size(4) One_nat_def)
  apply (simp add: initialize_HHF_def)
  apply (simp add: ev_np zero3_def del: list.size(4) One_nat_def bindE_Inr bindE_Inl)
  apply (simp add: initialize_SHF_def mu_REI_def shf_total_def)
  apply (simp add: ev_np del: list.size(4) One_nat_def bindE_Inr bindE_Inl)
  apply (simp add: reset_ham_def ev_np del: list.size(4) One_nat_def bindE_Inr bindE_Inl)
  apply (simp add: calc_energies_def linalg_eig_def is_mat_def eig_diag_def ev_np
      del: list.size(4) One_nat_def bindE_Inr bindE_Inl)
  apply (simp add: py_sorted_def argsort_def sorted_by_def c_le_def take_cols_def ev_np
       sys_nuc_def sys_half_def zero3_def del: list.size(4) One_nat_def bindE_Inr bindE_Inl)
  done

lemma sys_nuc_update: "update_zeeman_ham sys_nuc 0 0 0 = (Inl ValueError, sys_nuc)"
  apply (simp add: update_zeeman_ham_def zeeman_terms_def B_vec_of_def HZ_el_def HZ_n_rei_of_def
      sys_nuc_def sys_half_def)
  apply (simp add: ev_np zero3_def dotv_def del: list.size(4) One_nat_def bindE_Inr bindE_Inl)
  apply (simp add: reset_ham_def)
  apply (simp add: ev_np del: list.size(4) One_nat_def bindE_Inr bindE_Inl)
  apply (simp add: add_zeeman_def nd_iadd_def ev_np del: list.size(4) One_nat_def bindE_Inr bindE_Inl)
  done

text \<open>
  Claim C1 says that both assembled Hamiltonians are square of dimension
  \<open>D = (2S+1)(2I+1)\<Prod>(2s+1)\<close> for every configuration, and that \<open>D\<close> is kept by
  \<^verbatim>\<open>reset_ham\<close> and \<^verbatim>\<open>update_zeeman_ham\<close>. For electron spin 1/2 and ion-nucleus spin 1/2 without
  neighbours \<open>D = 4\<close>. The constructor succeeds, the excited-state Hamiltonian is \<open>4 \<times> 4\<close>, but the
  ground-state Hamiltonian is \<open>2 \<times> 2\<close>: \<^verbatim>\<open>sum(S[i] @ (A_gs S)[i])\<close> never leaves the electron
  space. The first \<^verbatim>\<open>update_zeeman_ham\<close>, which adds a \<open>4 \<times> 4\<close> Zeeman term in place onto it,
  raises \<^verbatim>\<open>ValueError\<close>.
\<close>

theorem ground_dimension_defect:
  "SpinSystem_init eig_diag (1 / 2) (1 / 2) zero3 zero3 zero3 zero3 0 [] = Inr sys_nuc
     \<and> multS sys_nuc * multI sys_nuc = 4
     \<and> shape (H_gs sys_nuc) = [2, 2] \<and> shape (H_es sys_nuc) = [4, 4]
     \<and> length (E_gs sys_nuc) = 2 \<and> length (E_es sys_nuc) = 4
     \<and> update_zeeman_ham sys_nuc 0 0 0 = (Inl ValueError, sys_nuc)"
  using sys_nuc_init sys_nuc_update
  by (simp add: sys_nuc_def sys_half_def nrows_def ncols_def)

subsection \<open>Slot order of the excited-state hyperfine term\<close>

lemma spin_one_matrices:
  "generate_spin_matrices 1 =
     Inr (Mat [[0, r2, 0], [r2, 0, r2], [0, r2, 0]],
          Mat [[0, - (\<i> * r2), 0], [\<i> * r2, 0, - (\<i> * r2)], [0, \<i> * r2, 0]],
          Mat [[1, 0, 0], [0, 0, 0], [0, 0, - 1]])"
  by (simp add: ev_spin r2_def)

lemma sys_one_init:
  "SpinSystem_init eig_diag (1 / 2) 1 zero3 zero3 zero3 Az 0 [] = Inr sys_one"
  apply (simp add: SpinSystem_init_def spin_half_matrices spin_one_matrices
      py_int_def del: list.size(4) One_nat_def)
  apply (simp add: reshape_stack_def flat_def del: list.size(4) One_nat_def)
  apply (simp add: initialize_HHF_def)
  apply (simp add: ev_np zero3_def Az_def del: list.size(4) One_nat_def bindE_Inr bindE_Inl)
  apply (simp add: initialize_SHF_def mu_REI_def shf_total_def)
  apply (simp add: ev_np del: list.size(4) One_nat_def bindE_Inr bindE_Inl)
  apply (simp add: reset_ham_def ev_np del: list.size(4) One_nat_def bindE_Inr bindE_Inl)
  apply (simp add: calc_energies_def linalg_eig_def is_mat_def eig_diag_def ev_np
      del: list.size(4) One_nat_def bindE_Inr bindE_Inl)
  apply (simp add: py_sorted_def argsort_def sorted_by_def c_le_def take_cols_def ev_np
       sys_one_def sys_half_def zero3_def Az_def del: list.size(4) One_nat_def bindE_Inr bindE_Inl)
  done

lemma sys_one_global_order:
  "HHF_es_global_order sys_one =
     Inr (Mat [[1 / 2, 0, 0, 0, 0, 0], [0, 0, 0, 0, 0, 0], [0, 0, - (1 / 2), 0, 0, 0],
               [0, 0, 0, - (1 / 2), 0, 0], [0, 0, 0, 0, 0, 0], [0, 0, 0, 0, 0, 1 / 2]])"
  apply (simp add: HHF_es_global_order_def sys_one_def sys_half_def)
  apply (simp add: ev_np Az_def del: list.size(4) One_nat_def bindE_Inr bindE_Inl)
  done

lemma sys_one_zeeman:
  "HZ_el sys_one (Vec [0, 0, 1]) [[1, 0, 0], [0, 1, 0], [0, 0, 1]] =
     Inr (Mat [[complex_of_real beta_el / 2, 0, 0, 0, 0, 0],
               [0, complex_of_real beta_el / 2, 0, 0, 0, 0],
               [0, 0, complex_of_real beta_el / 2, 0, 0, 0],
               [0, 0, 0, - (complex_of_real beta_el / 2), 0, 0],
               [0, 0, 0, 0, - (complex_of_real beta_el / 2), 0],
               [0, 0, 0, 0, 0, - (complex_of_real beta_el / 2)]])"
  apply (simp add: HZ_el_def sys_one_def sys_half_def)
  apply (simp add: ev_np dotv_def del: list.size(4) One_nat_def bindE_Inr bindE_Inl)
  done

text \<open>
  Claim C2 says that the excited-state hyperfine term carries the electron factor
  \<open>(A\<^sub>e\<^sub>s S)\<^sub>i\<close> in the first slot and the ion-nucleus operator \<open>I\<^sub>i\<close> in the second, the slot order
  of the Zeeman and superhyperfine terms. For electron spin 1/2, ion-nucleus spin 1 and
  \<open>A\<^sub>e\<^sub>s\<close> with the single entry \<open>A\<^sub>z\<^sub>z = 1\<close> the term in that order is \<open>S\<^sub>z \<otimes> I\<^sub>z\<close>, while the
  constructor stores \<open>I\<^sub>z \<otimes> S\<^sub>z\<close>: \<^verbatim>\<open>np.kron(I[i], (A_es S)[i])\<close> puts the nucleus first. The
  electron Zeeman term of the same object, \<open>\<beta> S\<^sub>z \<otimes> 1\<close>, has the electron first.
\<close>

theorem excited_hyperfine_slot_order:
  "SpinSystem_init eig_diag (1 / 2) 1 zero3 zero3 zero3 Az 0 [] = Inr sys_one
     \<and> HHF_es sys_one =
         Mat [[1 / 2, 0, 0, 0, 0, 0], [0, - (1 / 2), 0, 0, 0, 0], [0, 0, 0, 0, 0, 0],
              [0, 0, 0, 0, 0, 0], [0, 0, 0, 0, - (1 / 2), 0], [0, 0, 0, 0, 0, 1 / 2]]
     \<and> HHF_es_global_order sys_one =
         Inr (Mat [[1 / 2, 0, 0, 0, 0, 0], [0, 0, 0, 0, 0, 0], [0, 0, - (1 / 2), 0, 0, 0],
                   [0, 0, 0, - (1 / 2), 0, 0], [0, 0, 0, 0, 0, 0], [0, 0, 0, 0, 0, 1 / 2]])
     \<and> HHF_es_global_order sys_one \<noteq> Inr (HHF_es sys_one)
     \<and> HZ_el sys_one (Vec [0, 0, 1]) [[1, 0, 0], [0, 1, 0], [0, 0, 1]] =
         Inr (Mat [[complex_of_real beta_el / 2, 0, 0, 0, 0, 0],
                   [0, complex_of_real beta_el / 2, 0, 0, 0, 0],
                   [0, 0, complex_of_real beta_el / 2, 0, 0, 0],
                   [0, 0, 0, - (complex_of_real beta_el / 2), 0, 0],
                   [0, 0, 0, 0, - (complex_of_real beta_el / 2), 0],
                   [0, 0, 0, 0, 0, - (complex_of_real beta_el / 2)]])"
  using sys_one_init sys_one_global_order sys_one_zeeman
  by (simp add: sys_one_def sys_half_def)

subsection \<open>The Zeeman rebuild on a system with an ion nucleus\<close>

lemma sys_nuc_g_init:
  "SpinSystem_init eig_diag (1 / 2) (1 / 2) diag2 diag2 zero3 zero3 0 [] = Inr sys_nuc_g"
  apply (simp add: SpinSystem_init_def spin_half_matrices
      py_int_def del: list.size(4) One_nat_def)
  apply (simp add: reshape_stack_def flat_def del: list.size(4) One_nat_def)
  apply (simp add: initialize_HHF_def)
  apply (simp add: ev_np zero3_def del: list.size(4) One_nat_def bindE_Inr bindE_Inl)
  apply (simp add: initialize_SHF_def mu_REI_def shf_total_def)
  apply (simp add: ev_np diag2_def del: list.size(4) One_nat_def bindE_Inr bindE_Inl)
  apply (simp add: reset_ham_def ev_np del: list.size(4) One_nat_def bindE_Inr bindE_Inl)
  apply (simp add: calc_energies_def linalg_eig_def is_mat_def eig_diag_def ev_np
      del: list.size(4) One_nat_def bindE_Inr bindE_Inl)
  apply (simp add: py_sorted_def argsort_def sorted_by_def c_le_def take_cols_def ev_np
       sys_nuc_g_def sys_nuc_def sys_half_def zero3_def diag2_def del: list.size(4) One_nat_def bindE_Inr bindE_Inl)
  done

lemma sys_nuc_g_zeeman:
  "zeeman_terms sys_nuc_g 1 0 0 =
     Inr (Mat [[complex_of_real beta_el, 0, 0, 0], [0, complex_of_real beta_el, 0, 0],
               [0, 0, - complex_of_real beta_el, 0], [0, 0, 0, - complex_of_real beta_el]],
          Mat [[complex_of_real beta_el, 0, 0, 0], [0, complex_of_real beta_el, 0, 0],
               [0, 0, - complex_of_real beta_el, 0], [0, 0, 0, - complex_of_real beta_el]],
          Mat [[0, 0, 0, 0], [0, 0, 0, 0], [0, 0, 0, 0], [0, 0, 0, 0]], Scalar 0)"
  apply (simp add: zeeman_terms_def B_vec_of_def HZ_el_def HZ_n_rei_of_def sys_nuc_g_def
      sys_nuc_def sys_half_def)
  apply (simp add: ev_np diag2_def dotv_def del: list.size(4) One_nat_def bindE_Inr bindE_Inl)
  done

lemma sys_nuc_g_reset: "reset_ham sys_nuc_g = (Inr (), sys_nuc_g)"
  apply (simp add: reset_ham_def sys_nuc_g_def sys_nuc_def sys_half_def)
  apply (simp add: ev_np del: list.size(4) One_nat_def bindE_Inr bindE_Inl)
  done

lemma sys_nuc_g_update:
  "update_zeeman_ham sys_nuc_g 1 0 0 = (Inl ValueError, sys_nuc_g)"
  apply (simp add: update_zeeman_ham_def sys_nuc_g_zeeman)
  apply (simp add: reset_ham_def sys_nuc_g_def sys_nuc_def sys_half_def)
  apply (simp add: ev_np del: list.size(4) One_nat_def bindE_Inr bindE_Inl)
  apply (simp add: add_zeeman_def nd_iadd_def ev_np del: list.size(4) One_nat_def bindE_Inr bindE_Inl)
  done

lemma sys_nuc_g_update_zero:
  "update_zeeman_ham sys_nuc_g 0 0 0 = (Inl ValueError, sys_nuc_g)"
  apply (simp add: update_zeeman_ham_def zeeman_terms_def B_vec_of_def HZ_el_def HZ_n_rei_of_def
      sys_nuc_g_def sys_nuc_def sys_half_def)
  apply (simp add: ev_np diag2_def dotv_def del: list.size(4) One_nat_def bindE_Inr bindE_Inl)
  apply (simp add: reset_ham_def)
  apply (simp add: ev_np del: list.size(4) One_nat_def bindE_Inr bindE_Inl)
  apply (simp add: add_zeeman_def nd_iadd_def ev_np sys_nuc_g_def sys_nuc_def sys_half_def
      del: list.size(4) One_nat_def bindE_Inr bindE_Inl)
  done

text \<open>
  Claim C4 says that, for every system, \<^verbatim>\<open>update_zeeman_ham(B, theta, phi)\<close> always yields
  the cached field-independent term plus the Zeeman term, and that at \<open>B = 0\<close> it leaves
  the cached term. For electron spin 1/2 with \<open>g = 2\<close> and ion-nucleus spin 1/2 without
  neighbours the constructor succeeds and the Zeeman terms are \<open>4 \<times> 4\<close>, but the cached
  ground-state term is \<open>2 \<times> 2\<close>, so the in-place addition raises \<open>ValueError\<close> at every
  field, \<open>B = 0\<close> included. The object keeps the cached Hamiltonians: the excited-state
  Hamiltonian never receives its Zeeman term \<open>\<beta> g B S\<^sub>z \<otimes> 1\<close>.
\<close>

theorem zeeman_update_raises:
  "SpinSystem_init eig_diag (1 / 2) (1 / 2) diag2 diag2 zero3 zero3 0 [] = Inr sys_nuc_g
     \<and> zeeman_terms sys_nuc_g 1 0 0 =
         Inr (Mat [[complex_of_real beta_el, 0, 0, 0], [0, complex_of_real beta_el, 0, 0],
                   [0, 0, - complex_of_real beta_el, 0], [0, 0, 0, - complex_of_real beta_el]],
              Mat [[complex_of_real beta_el, 0, 0, 0], [0, complex_of_real beta_el, 0, 0],
                   [0, 0, - complex_of_real beta_el, 0], [0, 0, 0, - complex_of_real beta_el]],
              Mat [[0, 0, 0, 0], [0, 0, 0, 0], [0, 0, 0, 0], [0, 0, 0, 0]], Scalar 0)
     \<and> reset_ham sys_nuc_g = (Inr (), sys_nuc_g)
     \<and> shape (H_gs sys_nuc_g) = [2, 2] \<and> shape (H_es sys_nuc_g) = [4, 4]
     \<and> update_zeeman_ham sys_nuc_g 1 0 0 = (Inl ValueError, sys_nuc_g)
     \<and> update_zeeman_ham sys_nuc_g 0 0 0 = (Inl ValueError, sys_nuc_g)"
  using sys_nuc_g_init sys_nuc_g_zeeman sys_nuc_g_reset sys_nuc_g_update sys_nuc_g_update_zero
  by (simp add: sys_nuc_g_def sys_nuc_def sys_half_def nrows_def ncols_def)

section \<open>Hermiticity of the Hamiltonians\<close>

lemma sys_ok_frame [simp]:
  "sys_ok (self\<lparr>H_gs := X\<rparr>) = sys_ok self"
  "sys_ok (self\<lparr>HHF_gs := X\<rparr>) = sys_ok self"
  "sys_ok (self\<lparr>E_gs := e\<rparr>) = sys_ok self"
  "sys_ok (self\<lparr>E_es := e\<rparr>) = sys_ok self"
  "sys_ok (self\<lparr>eigvec_gs := v\<rparr>) = sys_ok self"
  "sys_ok (self\<lparr>eigvec_es := v\<rparr>) = sys_ok self"
  by (simp_all add: sys_ok_def)

lemma gs_ok_frame [simp]:
  "gs_ok (self\<lparr>H_es := X\<rparr>) = gs_ok self"
  "gs_ok (self\<lparr>HHF_es := X\<rparr>) = gs_ok self"
  "gs_ok (self\<lparr>H_SHF_gs := X\<rparr>) = gs_ok self"
  "gs_ok (self\<lparr>H_SHF_es := X\<rparr>) = gs_ok self"
  "gs_ok (self\<lparr>E_gs := e\<rparr>) = gs_ok self"
  "gs_ok (self\<lparr>E_es := e\<rparr>) = gs_ok self"
  "gs_ok (self\<lparr>eigvec_gs := v\<rparr>) = gs_ok self"
  "gs_ok (self\<lparr>eigvec_es := v\<rparr>) = gs_ok self"
  by (simp_all add: gs_ok_def)















subsection \<open>The assembled Hamiltonians\<close>










end
